theory Spec2Isabelle
  imports Complex_Main "HOL-Library.Word"
begin

unbundle bit_operations_syntax

section \<open>JavaScript values used by the studio application\<close>

text \<open>
  A JavaScript string is a sequence of UTF-16 code units. The source holds Hebrew
  literals, and \<open>password.length\<close> counts code units, so strings are lists of 16-bit
  words. \<open>ascii\<close> embeds an ASCII literal.
\<close>

type_synonym jsstring = "16 word list"

type_synonym byte = "8 word"

definition ascii :: "string \<Rightarrow> jsstring" where
  "ascii s = map (\<lambda>c. of_nat (of_char c)) s"

text \<open>
  A JavaScript number, as far as the modelled code handles one: a finite value or
  \<open>NaN\<close> (what \<open>parseInt\<close> gives for text without digits). No arithmetic is done on
  numbers by the modelled code; the only operation is the comparison of a list length
  with a capacity, in which every comparison with \<open>NaN\<close> is false.
\<close>

datatype jsnumber = Num real | NaN

definition length_ge :: "'a list \<Rightarrow> jsnumber \<Rightarrow> bool" where
  \<comment> \<open>\<open>xs.length >= c\<close>\<close>
  "length_ge xs c = (case c of Num r \<Rightarrow> r \<le> real (length xs) | NaN \<Rightarrow> False)"

text \<open>
  The uncaught faults of the modelled code: a \<open>TypeError\<close> (a property read of
  \<open>null\<close> or \<open>undefined\<close>, a call of a method the value does not have) and the
  \<open>QuotaExceededError\<close> that \<open>localStorage.setItem\<close> throws when the browser
  refuses a write.
\<close>

datatype error = TypeError | QuotaExceededError

section \<open>Password hashing\<close>

subsection \<open>\<open>TextEncoder.encode\<close>: UTF-16 code units to UTF-8 bytes\<close>

definition utf8_of_code_point :: "32 word \<Rightarrow> byte list" where
  "utf8_of_code_point cp =
     (if cp < 0x80 then [ucast cp]
      else if cp < 0x800 then
        [0xC0 OR ucast (drop_bit 6 cp), 0x80 OR (ucast cp AND 0x3F)]
      else if cp < 0x10000 then
        [0xE0 OR ucast (drop_bit 12 cp), 0x80 OR (ucast (drop_bit 6 cp) AND 0x3F),
         0x80 OR (ucast cp AND 0x3F)]
      else
        [0xF0 OR ucast (drop_bit 18 cp), 0x80 OR (ucast (drop_bit 12 cp) AND 0x3F),
         0x80 OR (ucast (drop_bit 6 cp) AND 0x3F), 0x80 OR (ucast cp AND 0x3F)])"

definition is_high_surrogate :: "16 word \<Rightarrow> bool" where
  "is_high_surrogate u = (0xD800 \<le> u \<and> u \<le> 0xDBFF)"

definition is_low_surrogate :: "16 word \<Rightarrow> bool" where
  "is_low_surrogate u = (0xDC00 \<le> u \<and> u \<le> 0xDFFF)"

text \<open>
  A surrogate pair is one code point; a surrogate without its partner is encoded as
  the replacement character U+FFFD.
\<close>

fun encode :: "jsstring \<Rightarrow> byte list" where
  "encode [] = []"
| "encode [u] =
     (if is_high_surrogate u \<or> is_low_surrogate u then utf8_of_code_point 0xFFFD
      else utf8_of_code_point (ucast u))"
| "encode (u # l # us) =
     (if is_high_surrogate u then
        (if is_low_surrogate l then
           utf8_of_code_point
             (0x10000 + push_bit 10 (ucast u - 0xD800) + (ucast l - 0xDC00)) @ encode us
         else utf8_of_code_point 0xFFFD @ encode (l # us))
      else if is_low_surrogate u then utf8_of_code_point 0xFFFD @ encode (l # us)
      else utf8_of_code_point (ucast u) @ encode (l # us))"

subsection \<open>\<open>crypto.subtle.digest('SHA-256', data)\<close>\<close>

text \<open>
  The digest is a browser primitive; it is modelled by the SHA-256 function of
  FIPS 180-4 on 32-bit words.
\<close>

definition K256 :: "32 word list" where
  "K256 =
  [0x428A2F98, 0x71374491, 0xB5C0FBCF, 0xE9B5DBA5,
   0x3956C25B, 0x59F111F1, 0x923F82A4, 0xAB1C5ED5,
   0xD807AA98, 0x12835B01, 0x243185BE, 0x550C7DC3,
   0x72BE5D74, 0x80DEB1FE, 0x9BDC06A7, 0xC19BF174,
   0xE49B69C1, 0xEFBE4786, 0x0FC19DC6, 0x240CA1CC,
   0x2DE92C6F, 0x4A7484AA, 0x5CB0A9DC, 0x76F988DA,
   0x983E5152, 0xA831C66D, 0xB00327C8, 0xBF597FC7,
   0xC6E00BF3, 0xD5A79147, 0x06CA6351, 0x14292967,
   0x27B70A85, 0x2E1B2138, 0x4D2C6DFC, 0x53380D13,
   0x650A7354, 0x766A0ABB, 0x81C2C92E, 0x92722C85,
   0xA2BFE8A1, 0xA81A664B, 0xC24B8B70, 0xC76C51A3,
   0xD192E819, 0xD6990624, 0xF40E3585, 0x106AA070,
   0x19A4C116, 0x1E376C08, 0x2748774C, 0x34B0BCB5,
   0x391C0CB3, 0x4ED8AA4A, 0x5B9CCA4F, 0x682E6FF3,
   0x748F82EE, 0x78A5636F, 0x84C87814, 0x8CC70208,
   0x90BEFFFA, 0xA4506CEB, 0xBEF9A3F7, 0xC67178F2]"

type_synonym sha_state =
  "32 word \<times> 32 word \<times> 32 word \<times> 32 word \<times> 32 word \<times> 32 word \<times> 32 word \<times> 32 word"

definition H256 :: sha_state where
  "H256 = (0x6A09E667, 0xBB67AE85, 0x3C6EF372, 0xA54FF53A,
           0x510E527F, 0x9B05688C, 0x1F83D9AB, 0x5BE0CD19)"

definition Ch :: "32 word \<Rightarrow> 32 word \<Rightarrow> 32 word \<Rightarrow> 32 word" where
  "Ch x y z = (x AND y) XOR (NOT x AND z)"

definition Maj :: "32 word \<Rightarrow> 32 word \<Rightarrow> 32 word \<Rightarrow> 32 word" where
  "Maj x y z = (x AND y) XOR (x AND z) XOR (y AND z)"

definition Sigma0 :: "32 word \<Rightarrow> 32 word" where
  "Sigma0 x = word_rotr 2 x XOR word_rotr 13 x XOR word_rotr 22 x"

definition Sigma1 :: "32 word \<Rightarrow> 32 word" where
  "Sigma1 x = word_rotr 6 x XOR word_rotr 11 x XOR word_rotr 25 x"

definition sigma0 :: "32 word \<Rightarrow> 32 word" where
  "sigma0 x = word_rotr 7 x XOR word_rotr 18 x XOR drop_bit 3 x"

definition sigma1 :: "32 word \<Rightarrow> 32 word" where
  "sigma1 x = word_rotr 17 x XOR word_rotr 19 x XOR drop_bit 10 x"

definition be64 :: "64 word \<Rightarrow> byte list" where
  "be64 w =
     [ucast (drop_bit 56 w), ucast (drop_bit 48 w), ucast (drop_bit 40 w),
      ucast (drop_bit 32 w), ucast (drop_bit 24 w), ucast (drop_bit 16 w),
      ucast (drop_bit 8 w), ucast w]"

definition sha_pad :: "byte list \<Rightarrow> byte list" where
  "sha_pad m =
     m @ [0x80] @ replicate ((119 - length m mod 64) mod 64) 0 @ be64 (8 * of_nat (length m))"

definition be32 :: "byte list \<Rightarrow> 32 word" where
  "be32 bs = foldl (\<lambda>acc b. push_bit 8 acc OR ucast b) 0 bs"

fun be_words :: "nat \<Rightarrow> byte list \<Rightarrow> 32 word list" where
  "be_words 0 bs = []"
| "be_words (Suc n) bs = be32 (take 4 bs) # be_words n (drop 4 bs)"

fun schedule :: "nat \<Rightarrow> 32 word list \<Rightarrow> 32 word list" where
  "schedule 0 w = w"
| "schedule (Suc n) w =
     schedule n (w @ [sigma1 (w ! (length w - 2)) + w ! (length w - 7)
                      + sigma0 (w ! (length w - 15)) + w ! (length w - 16)])"

fun sha_round :: "sha_state \<Rightarrow> 32 word \<times> 32 word \<Rightarrow> sha_state" where
  "sha_round (a, b, c, d, e, f, g, h) (k, w) =
     (let T1 = h + Sigma1 e + Ch e f g + k + w;
          T2 = Sigma0 a + Maj a b c
      in (T1 + T2, a, b, c, d + T1, e, f, g))"

fun sha_add :: "sha_state \<Rightarrow> sha_state \<Rightarrow> sha_state" where
  "sha_add (a, b, c, d, e, f, g, h) (a', b', c', d', e', f', g', h') =
     (a + a', b + b', c + c', d + d', e + e', f + f', g + g', h + h')"

definition sha_block :: "sha_state \<Rightarrow> byte list \<Rightarrow> sha_state" where
  "sha_block H blk =
     sha_add H (foldl sha_round H (zip K256 (schedule 48 (be_words 16 blk))))"

fun sha_blocks :: "nat \<Rightarrow> sha_state \<Rightarrow> byte list \<Rightarrow> sha_state" where
  "sha_blocks 0 H bs = H"
| "sha_blocks (Suc n) H bs = sha_blocks n (sha_block H (take 64 bs)) (drop 64 bs)"

definition bytes32 :: "32 word \<Rightarrow> byte list" where
  "bytes32 w = [ucast (drop_bit 24 w), ucast (drop_bit 16 w), ucast (drop_bit 8 w), ucast w]"

fun sha_out :: "sha_state \<Rightarrow> byte list" where
  "sha_out (a, b, c, d, e, f, g, h) = concat (map bytes32 [a, b, c, d, e, f, g, h])"

definition sha256 :: "byte list \<Rightarrow> byte list" where
  "sha256 m = (let p = sha_pad m in sha_out (sha_blocks (length p div 64) H256 p))"

subsection \<open>\<open>hashPassword\<close>\<close>

text \<open>
  \<^verbatim>\<open>hashArray.map((b) => b.toString(16).padStart(2, '0')).join('')\<close>:
  \<open>toString16\<close> is \<open>Number.prototype.toString(16)\<close> on a byte (lowercase digits,
  no leading zero), \<open>padStart\<close> pads on the left with one repeated code unit.
\<close>

definition hexDigit :: "byte \<Rightarrow> 16 word" where
  "hexDigit d = (if d < 10 then 0x30 + ucast d else 0x57 + ucast d)"

definition toString16 :: "byte \<Rightarrow> jsstring" where
  "toString16 b = (if b < 16 then [hexDigit b] else [hexDigit (drop_bit 4 b), hexDigit (b AND 0xF)])"

definition padStart :: "nat \<Rightarrow> 16 word \<Rightarrow> jsstring \<Rightarrow> jsstring" where
  "padStart n c s = replicate (n - length s) c @ s"

definition hashPassword :: "jsstring \<Rightarrow> jsstring" where
  "hashPassword password =
     (let data = encode password;
          hashBuffer = sha256 data;
          hashArray = hashBuffer
      in concat (map (\<lambda>b. padStart 2 0x30 (toString16 b)) hashArray))"

section \<open>Text literals of the source\<close>

text \<open>
  The Hebrew literals of the two application files, as code units. Each definition
  names the place it is copied from; the gloss is a translation.
\<close>

definition msg_user_not_found :: jsstring where
  \<comment> \<open>user not found; part_001 line 203\<close>
  "msg_user_not_found =
     [0x5DE, 0x5E9, 0x5EA, 0x5DE, 0x5E9, 0x20, 0x5DC, 0x5D0, 0x20, 0x5E0, 0x5DE, 0x5E6,
      0x5D0]"

definition msg_wrong_password :: jsstring where
  \<comment> \<open>wrong password; part_001 line 212\<close>
  "msg_wrong_password =
     [0x5E1, 0x5D9, 0x5E1, 0x5DE, 0x5D4, 0x20, 0x5E9, 0x5D2, 0x5D5, 0x5D9, 0x5D4]"

definition msg_fill_fields :: jsstring where
  \<comment> \<open>please fill in user name and password; part_001 line 221\<close>
  "msg_fill_fields =
     [0x5E0, 0x5D0, 0x20, 0x5DC, 0x5DE, 0x5DC, 0x5D0, 0x20, 0x5E9, 0x5DD, 0x20, 0x5DE,
      0x5E9, 0x5EA, 0x5DE, 0x5E9, 0x20, 0x5D5, 0x5E1, 0x5D9, 0x5E1, 0x5DE, 0x5D4]"

definition msg_username_exists :: jsstring where
  \<comment> \<open>user name already exists; part_001 line 224\<close>
  "msg_username_exists =
     [0x5E9, 0x5DD, 0x20, 0x5DE, 0x5E9, 0x5EA, 0x5DE, 0x5E9, 0x20, 0x5DB, 0x5D1, 0x5E8,
      0x20, 0x5E7, 0x5D9, 0x5D9, 0x5DD]"

definition msg_registered :: jsstring where
  \<comment> \<open>registered successfully; part_001 line 245\<close>
  "msg_registered =
     [0x5E0, 0x5E8, 0x5E9, 0x5DE, 0x5EA, 0x20, 0x5D1, 0x5D4, 0x5E6, 0x5DC, 0x5D7, 0x5D4]"

definition txt_studio_manager :: jsstring where
  \<comment> \<open>full name of the seeded trainer; part_001 line 50\<close>
  "txt_studio_manager =
     [0x5DE, 0x5E0, 0x5D4, 0x5DC, 0x20, 0x5E1, 0x5D8, 0x5D5, 0x5D3, 0x5D9, 0x5D5]"

definition txt_demo_trainee :: jsstring where
  \<comment> \<open>full name of the seeded client; part_001 line 66\<close>
  "txt_demo_trainee =
     [0x5DE, 0x5EA, 0x5D0, 0x5DE, 0x5DF, 0x20, 0x5D3, 0x5DE, 0x5D5]"

definition txt_basic_program :: jsstring where
  \<comment> \<open>name of the seeded program; part_001 line 92\<close>
  "txt_basic_program =
     [0x5EA, 0x5D5, 0x5DB, 0x5E0, 0x5D9, 0x5EA, 0x20, 0x5D1, 0x5E1, 0x5D9, 0x5E1, 0x5D9,
      0x5EA]"

definition txt_basic_description :: jsstring where
  \<comment> \<open>description of the seeded program; part_001 line 93\<close>
  "txt_basic_description =
     [0x5EA, 0x5D5, 0x5DB, 0x5E0, 0x5D9, 0x5EA, 0x20, 0x5DB, 0x5DC, 0x5DC, 0x5D9, 0x5EA,
      0x20, 0x5DC, 0x5E9, 0x5D9, 0x5E4, 0x5D5, 0x5E8, 0x20, 0x5D4, 0x5DB, 0x5D5, 0x5E9,
      0x5E8]"

definition txt_squat :: jsstring where
  \<comment> \<open>squat; part_001 line 95\<close>
  "txt_squat =
     [0x5E1, 0x5E7, 0x5D5, 0x5D5, 0x5D0, 0x5D8]"

definition txt_keep_back_straight :: jsstring where
  \<comment> \<open>keep the back straight; part_001 line 95\<close>
  "txt_keep_back_straight =
     [0x5E9, 0x5DE, 0x5D5, 0x5E8, 0x20, 0x5E2, 0x5DC, 0x20, 0x5D2, 0x5D1, 0x20, 0x5D9,
      0x5E9, 0x5E8]"

definition txt_chest_press :: jsstring where
  \<comment> \<open>chest press; part_001 line 96\<close>
  "txt_chest_press =
     [0x5DC, 0x5D7, 0x5D9, 0x5E6, 0x5EA, 0x20, 0x5D7, 0x5D6, 0x5D4]"

definition txt_medium :: jsstring where
  \<comment> \<open>medium; part_000 line 81\<close>
  "txt_medium =
     [0x5D1, 0x5D9, 0x5E0, 0x5D5, 0x5E0, 0x5D9]"

definition txt_45_minutes :: jsstring where
  \<comment> \<open>45 minutes; part_000 line 82\<close>
  "txt_45_minutes =
     [0x34, 0x35, 0x20, 0x5D3, 0x5E7, 0x5D5, 0x5EA]"

definition txt_legs :: jsstring where
  \<comment> \<open>legs; part_000 line 83\<close>
  "txt_legs =
     [0x5E8, 0x5D2, 0x5DC, 0x5D9, 0x5D9, 0x5DD]"

definition txt_chest :: jsstring where
  \<comment> \<open>chest; part_000 line 83\<close>
  "txt_chest =
     [0x5D7, 0x5D6, 0x5D4]"

definition txt_back :: jsstring where
  \<comment> \<open>back; part_000 line 83\<close>
  "txt_back =
     [0x5D2, 0x5D1]"

definition txt_breathe :: jsstring where
  \<comment> \<open>breathe correctly; part_000 line 104\<close>
  "txt_breathe =
     [0x5E0, 0x5E9, 0x5D9, 0x5DE, 0x5D4, 0x20, 0x5E0, 0x5DB, 0x5D5, 0x5E0, 0x5D4]"

definition txt_bodyweight :: jsstring where
  \<comment> \<open>body weight; part_000 line 132\<close>
  "txt_bodyweight =
     [0x5DE, 0x5E9, 0x5E7, 0x5DC, 0x20, 0x5D2, 0x5D5, 0x5E3]"

definition txt_weights :: jsstring where
  \<comment> \<open>weights; part_000 line 133\<close>
  "txt_weights =
     [0x5DE, 0x5E9, 0x5E7, 0x5D5, 0x5DC, 0x5D5, 0x5EA]"

definition txt_back_pull :: jsstring where
  \<comment> \<open>back pull; part_000 line 134\<close>
  "txt_back_pull =
     [0x5DE, 0x5E9, 0x5D9, 0x5DB, 0x5EA, 0x20, 0x5D2, 0x5D1]"

definition txt_cable :: jsstring where
  \<comment> \<open>cable; part_000 line 134\<close>
  "txt_cable =
     [0x5DB, 0x5D1, 0x5DC]"

definition txt_shoulder_press :: jsstring where
  \<comment> \<open>shoulder press; part_000 line 135\<close>
  "txt_shoulder_press =
     [0x5DC, 0x5D7, 0x5D9, 0x5E6, 0x5EA, 0x20, 0x5DB, 0x5EA, 0x5E4, 0x5D9, 0x5D9, 0x5DD]"

definition txt_shoulders :: jsstring where
  \<comment> \<open>shoulders; part_000 line 135\<close>
  "txt_shoulders =
     [0x5DB, 0x5EA, 0x5E4, 0x5D9, 0x5D9, 0x5DD]"

definition txt_crunches :: jsstring where
  \<comment> \<open>crunches; part_000 line 136\<close>
  "txt_crunches =
     [0x5E1, 0x5D9, 0x5D1, 0x5D5, 0x5D1, 0x5D9, 0x20, 0x5D1, 0x5D8, 0x5DF]"

definition txt_abs :: jsstring where
  \<comment> \<open>abdomen; part_000 line 136\<close>
  "txt_abs =
     [0x5D1, 0x5D8, 0x5DF]"

definition txt_deadlift :: jsstring where
  \<comment> \<open>deadlift; part_000 line 137\<close>
  "txt_deadlift =
     [0x5D3, 0x5D3, 0x5DC, 0x5D9, 0x5E4, 0x5D8]"

section \<open>Records of the data model\<close>

text \<open>
  Object shapes are records. Several shapes have properties of the same name
  (\<open>id\<close>, \<open>name\<close>, \<open>date\<close>, ...); such a property \<open>p\<close> is written \<open>p_shape\<close>.
  \<open>assignedProgramId: null\<close> is \<open>None\<close>; the \<open>goals\<close> object is its property list.
\<close>

record metric =
  date_metric :: jsstring
  weight_metric :: jsnumber
  bodyFat :: jsnumber
  chest :: jsnumber
  waist :: jsnumber

text \<open>
  The user object has the same leading properties in both application files; the
  booking application (part_001) adds three joined/purchased lists, the workout
  application (part_000) adds \<open>completedWorkouts\<close>.
\<close>

record user =
  id_user :: jsstring
  username :: jsstring
  password :: jsstring
  role :: jsstring
  fullName :: jsstring
  email :: jsstring
  phone :: jsstring
  goals :: "(jsstring \<times> jsnumber) list"
  waterGoal :: jsnumber
  assignedProgramId :: "jsstring option"
  metrics :: "metric list"

record studio_user = user +
  joinedSessions :: "jsstring list"
  joinedGroups :: "jsstring list"
  purchasedProducts :: "jsstring list"

record workout_user = user +
  completedWorkouts :: "jsstring list"

record 'e program =
  id_program :: jsstring
  name_program :: jsstring
  description_program :: jsstring
  exercises_program :: "'e list"

record plan_exercise =
  name_pe :: jsstring
  sets_pe :: jsnumber
  reps_pe :: jsnumber
  rest_pe :: jsstring
  notes_pe :: jsstring
  video_pe :: jsstring

record session =
  id_session :: jsstring
  title_session :: jsstring
  date_session :: jsstring
  time_session :: jsstring
  capacity_session :: jsnumber
  description_session :: jsstring
  participants :: "jsstring list"

record group =
  id_group :: jsstring
  title_group :: jsstring
  date_group :: jsstring
  time_group :: jsstring
  capacity_group :: jsnumber
  description_group :: jsstring
  members :: "jsstring list"

record product =
  id_product :: jsstring
  name_product :: jsstring
  price :: jsnumber
  description_product :: jsstring

text \<open>The workout application (part_000).\<close>

record workout_exercise =
  id_we :: jsstring
  name_we :: jsstring
  sets_we :: jsnumber
  reps_we :: jsnumber
  weight_we :: jsnumber
  rest_we :: jsnumber
  notes_we :: jsstring
  muscleGroup_we :: jsstring
  video_we :: jsstring
  completed_we :: bool

record 'e workout_program = "'e program" +
  difficulty :: jsstring
  duration_program :: jsstring
  targetMuscles :: "jsstring list"

record exercise =
  id_exercise :: jsstring
  name_exercise :: jsstring
  muscleGroup :: jsstring
  equipment :: jsstring

text \<open>
  \<open>completeWorkout\<close> stores the exercise results it is given without looking at
  them, so their type is a parameter.
\<close>

record 'r workout =
  id_workout :: jsstring
  userId :: jsstring
  programId :: jsstring
  date_workout :: jsstring
  exercises_workout :: 'r
  notes_workout :: jsstring
  duration_workout :: jsnumber

section \<open>Application state\<close>

text \<open>
  The \<open>useState\<close> cells of \<open>App\<close> that the handlers read and write. A handler closes
  over the current cells and calls the setters; the model passes the state in and
  returns the state after the setters have taken effect. (The \<open>loading\<close> flag and the
  write-through effects are not part of the handlers.)
\<close>

record state =
  users :: "studio_user list"
  programs :: "plan_exercise program list"
  sessions :: "session list"
  groups :: "group list"
  products :: "product list"
  currentUser :: "studio_user option"
  activePage :: jsstring

record 'r wstate =
  users_w :: "workout_user list"
  programs_w :: "workout_exercise workout_program list"
  workouts :: "'r workout list"
  exercises :: "exercise list"
  currentUser_w :: "workout_user option"
  activePage_w :: jsstring

text \<open>
  The object a credential handler returns, read through the properties \<open>success\<close>,
  \<open>message\<close> and \<open>user\<close>; a property the object literal does not have reads as
  \<open>None\<close> (\<open>undefined\<close>).
\<close>

record 'u result =
  success :: bool
  message :: "jsstring option"
  user :: "'u option"

section \<open>Authentication handlers (part_001)\<close>

definition handleLogin ::
  "state \<Rightarrow> jsstring \<Rightarrow> jsstring \<Rightarrow> studio_user result \<times> state" where
  "handleLogin st username' password' =
     (case find (\<lambda>u. username u = username') (users st) of
        None \<Rightarrow> (\<lparr>success = False, message = Some msg_user_not_found, user = None\<rparr>, st)
      | Some u \<Rightarrow>
          (let inputPass =
                 (if length (password u) = 64 then hashPassword password' else password')
           in if inputPass \<noteq> password u
              then (\<lparr>success = False, message = Some msg_wrong_password, user = None\<rparr>, st)
              else (\<lparr>success = True, message = None, user = None\<rparr>,
                    st\<lparr>currentUser := Some u, activePage := ascii ''dashboard''\<rparr>)))"

text \<open>
  \<open>newId\<close> is the string \<open>generateId()\<close> returns in this call. \<open>!username\<close> holds of a
  string exactly when it is empty.
\<close>

definition handleRegister ::
  "state \<Rightarrow> jsstring \<Rightarrow> jsstring \<Rightarrow> jsstring \<Rightarrow> jsstring \<Rightarrow> studio_user result \<times> state" where
  "handleRegister st newId username' password' role' =
     (if username' = [] \<or> password' = []
      then (\<lparr>success = False, message = Some msg_fill_fields, user = None\<rparr>, st)
      else if find (\<lambda>u. username u = username') (users st) \<noteq> None
      then (\<lparr>success = False, message = Some msg_username_exists, user = None\<rparr>, st)
      else
        (let hashed = hashPassword password';
             newUser =
               \<lparr>id_user = newId, username = username', password = hashed, role = role',
                fullName = [], email = [], phone = [], goals = [], waterGoal = Num 2,
                assignedProgramId = None, metrics = [],
                joinedSessions = [], joinedGroups = [], purchasedProducts = []\<rparr>
         in (\<lparr>success = True, message = Some msg_registered, user = None\<rparr>,
             st\<lparr>users := users st @ [newUser]\<rparr>)))"

section \<open>Sessions, groups and products (part_001)\<close>

subsection \<open>\<open>parseInt(capacity, 10)\<close>\<close>

definition isStrWhiteSpaceChar :: "16 word \<Rightarrow> bool" where
  "isStrWhiteSpaceChar c =
     (c \<in> {0x9, 0xA, 0xB, 0xC, 0xD, 0x20, 0xA0, 0x1680, 0x2028, 0x2029, 0x202F, 0x205F,
            0x3000, 0xFEFF}
      \<or> (0x2000 \<le> c \<and> c \<le> 0x200A))"

definition isDigit :: "16 word \<Rightarrow> bool" where
  "isDigit c = (0x30 \<le> c \<and> c \<le> 0x39)"

definition digitsValue :: "jsstring \<Rightarrow> int" where
  "digitsValue ds = foldl (\<lambda>acc d. 10 * acc + (uint d - 48)) 0 ds"

text \<open>
  Leading white space, an optional sign, then the longest run of decimal digits; no
  digit gives \<open>NaN\<close>. The value is the exact integer (the rounding of integers beyond
  \<open>2 ^ 53\<close> is not modelled).
\<close>

definition parseInt :: "jsstring \<Rightarrow> jsnumber" where
  "parseInt string =
     (let s = dropWhile isStrWhiteSpaceChar string;
          sign = (if s \<noteq> [] \<and> hd s = 0x2D then - 1 else 1);
          s' = (if s \<noteq> [] \<and> (hd s = 0x2B \<or> hd s = 0x2D) then tl s else s);
          z = takeWhile isDigit s'
      in if z = [] then NaN else Num (real_of_int (sign * digitsValue z)))"

subsection \<open>Handlers\<close>

definition createSession ::
  "state \<Rightarrow> jsstring \<Rightarrow> jsstring \<Rightarrow> jsstring \<Rightarrow> jsstring \<Rightarrow> jsstring \<Rightarrow> jsstring \<Rightarrow> state" where
  "createSession st newId title date time capacity description =
     (let newSession =
            \<lparr>id_session = newId, title_session = title, date_session = date,
             time_session = time, capacity_session = parseInt capacity,
             description_session = description, participants = []\<rparr>
      in st\<lparr>sessions := sessions st @ [newSession]\<rparr>)"

definition bookSession :: "state \<Rightarrow> jsstring \<Rightarrow> state" where
  "bookSession st sessionId =
     (case currentUser st of
        None \<Rightarrow> st
      | Some cu \<Rightarrow>
          st\<lparr>sessions :=
               map (\<lambda>s. if id_session s = sessionId then
                           (if id_user cu \<in> set (participants s) then s
                            else if length_ge (participants s) (capacity_session s) then s
                            else s\<lparr>participants := participants s @ [id_user cu]\<rparr>)
                         else s)
                   (sessions st),
             users :=
               map (\<lambda>u. if id_user u = id_user cu
                         then u\<lparr>joinedSessions := joinedSessions u @ [sessionId]\<rparr> else u)
                   (users st)\<rparr>)"

definition createGroup ::
  "state \<Rightarrow> jsstring \<Rightarrow> jsstring \<Rightarrow> jsstring \<Rightarrow> jsstring \<Rightarrow> jsstring \<Rightarrow> jsstring \<Rightarrow> state" where
  "createGroup st newId title date time capacity description =
     (let newGroup =
            \<lparr>id_group = newId, title_group = title, date_group = date,
             time_group = time, capacity_group = parseInt capacity,
             description_group = description, members = []\<rparr>
      in st\<lparr>groups := groups st @ [newGroup]\<rparr>)"

definition joinGroup :: "state \<Rightarrow> jsstring \<Rightarrow> state" where
  "joinGroup st groupId =
     (case currentUser st of
        None \<Rightarrow> st
      | Some cu \<Rightarrow>
          st\<lparr>groups :=
               map (\<lambda>g. if id_group g = groupId then
                           (if id_user cu \<in> set (members g)
                               \<or> length_ge (members g) (capacity_group g) then g
                            else g\<lparr>members := members g @ [id_user cu]\<rparr>)
                         else g)
                   (groups st),
             users :=
               map (\<lambda>u. if id_user u = id_user cu
                         then u\<lparr>joinedGroups := joinedGroups u @ [groupId]\<rparr> else u)
                   (users st)\<rparr>)"

text \<open>
  \<open>users.find(...)\<close> gives \<open>undefined\<close> when no user has the current user's id, and
  reading \<open>purchasedProducts\<close> of it throws.
\<close>

definition purchaseProduct :: "state \<Rightarrow> jsstring \<Rightarrow> error + state" where
  "purchaseProduct st productId =
     (case currentUser st of
        None \<Rightarrow> Inr st
      | Some cu \<Rightarrow>
          (case find (\<lambda>u. id_user u = id_user cu) (users st) of
             None \<Rightarrow> Inl TypeError
           | Some user' \<Rightarrow>
               if productId \<in> set (purchasedProducts user') then Inr st
               else Inr (st\<lparr>users :=
                               map (\<lambda>u. if id_user u = id_user cu
                                         then u\<lparr>purchasedProducts :=
                                                  purchasedProducts u @ [productId]\<rparr>
                                         else u)
                                   (users st)\<rparr>)))"

section \<open>Workout completion (part_000)\<close>

text \<open>
  \<open>newId\<close> is the result of \<open>generateId()\<close>, \<open>now\<close> that of
  \<open>new Date().toISOString()\<close>. With \<open>currentUser\<close> null, \<open>currentUser.id\<close> throws
  while the workout object is being built, before any setter is called.
\<close>

definition completeWorkout ::
  "'r wstate \<Rightarrow> jsstring \<Rightarrow> jsstring \<Rightarrow> jsstring \<Rightarrow> 'r \<Rightarrow> jsstring \<Rightarrow> error + 'r wstate" where
  "completeWorkout st newId now programId' exerciseResults notes =
     (case currentUser_w st of
        None \<Rightarrow> Inl TypeError
      | Some cu \<Rightarrow>
          (let workout =
                 \<lparr>id_workout = newId, userId = id_user cu, programId = programId',
                  date_workout = now, exercises_workout = exerciseResults,
                  notes_workout = notes, duration_workout = Num 0\<rparr>
           in Inr (st\<lparr>workouts := workouts st @ [workout],
                      users_w :=
                        map (\<lambda>u. if id_user u = id_user cu
                                  then u\<lparr>completedWorkouts :=
                                           completedWorkouts u @ [id_workout workout]\<rparr>
                                  else u)
                            (users_w st)\<rparr>)))"

section \<open>Local storage and JSON\<close>

text \<open>
  \<open>localStorage\<close> maps keys to strings; \<open>getItem\<close> of a missing key is \<open>null\<close>
  (\<open>None\<close>). Whether the browser accepts a write (its quota, its privacy mode) is not
  decided by the program: it is the parameter \<open>accepts\<close>, asked with the storage as it
  is, the key and the value. An accepted write updates the map; a refused one throws.
\<close>

type_synonym storage = "jsstring \<Rightarrow> jsstring option"

type_synonym quota = "storage \<Rightarrow> jsstring \<Rightarrow> jsstring \<Rightarrow> bool"

definition getItem :: "storage \<Rightarrow> jsstring \<Rightarrow> jsstring option" where
  "getItem store key = store key"

definition setItem :: "quota \<Rightarrow> storage \<Rightarrow> jsstring \<Rightarrow> jsstring \<Rightarrow> error + storage" where
  "setItem accepts store key v =
     (if accepts store key v then Inr (store(key \<mapsto> v)) else Inl QuotaExceededError)"

definition USERS_KEY :: jsstring where
  "USERS_KEY = ascii ''studio_users''"

definition PROGRAMS_KEY :: jsstring where
  "PROGRAMS_KEY = ascii ''studio_programs''"

definition SESSIONS_KEY :: jsstring where
  "SESSIONS_KEY = ascii ''studio_sessions''"

definition GROUPS_KEY :: jsstring where
  "GROUPS_KEY = ascii ''studio_groups''"

definition PRODUCTS_KEY :: jsstring where
  "PRODUCTS_KEY = ascii ''studio_products''"

definition WORKOUTS_KEY :: jsstring where
  "WORKOUTS_KEY = ascii ''studio_workouts''"

definition EXERCISES_KEY :: jsstring where
  "EXERCISES_KEY = ascii ''studio_exercises''"

text \<open>
  What \<open>JSON.parse\<close> can return for the text of a collection: an array of records, or
  a value that is not an array. (A top-level JSON object is not modelled.)
\<close>

datatype 'a json = JArray "'a list" | JString jsstring | JNumber jsnumber | JBool bool | JNull

text \<open>
  \<open>JSON.parse\<close> and \<open>JSON.stringify\<close> are browser primitives and parameters of the
  model, one pair for each record type. \<open>parse c s = None\<close> means that \<open>JSON.parse(s)\<close>
  throws a \<open>SyntaxError\<close>. The only fact used about them is that the text \<open>[]\<close> parses
  to the empty array.
\<close>

record 'a codec =
  parse :: "jsstring \<Rightarrow> 'a json option"
  stringify :: "'a json \<Rightarrow> jsstring"

definition JSON_parse :: "'a codec \<Rightarrow> jsstring \<Rightarrow> 'a json option" where
  "JSON_parse c s = (if s = ascii ''[]'' then Some (JArray []) else parse c s)"

text \<open>\<open>x.length === 0\<close>; reading a property of \<open>null\<close> throws.\<close>

fun length_is_0 :: "'a json \<Rightarrow> error + bool" where
  "length_is_0 (JArray xs) = Inr (xs = [])"
| "length_is_0 (JString s) = Inr (s = [])"
| "length_is_0 (JNumber n) = Inr False"
| "length_is_0 (JBool b) = Inr False"
| "length_is_0 JNull = Inl TypeError"

text \<open>\<open>x.push(v)\<close>; only an array has the method.\<close>

fun push :: "'a json \<Rightarrow> 'a \<Rightarrow> error + 'a json" where
  "push (JArray xs) v = Inr (JArray (xs @ [v]))"
| "push x v = Inl TypeError"

text \<open>
  The users block of \<open>loadData\<close> before seeding:
  \<^verbatim>\<open>let users = []; const usersJson = localStorage.getItem(USERS_KEY);
  if (usersJson) { try { users = JSON.parse(usersJson); } catch (e) { users = []; } }\<close>
  (the empty string is falsy).
\<close>

definition read_users :: "'a codec \<Rightarrow> storage \<Rightarrow> 'a json" where
  "read_users c store =
     (case getItem store USERS_KEY of
        None \<Rightarrow> JArray []
      | Some usersJson \<Rightarrow>
          if usersJson = [] then JArray []
          else (case JSON_parse c usersJson of None \<Rightarrow> JArray [] | Some v \<Rightarrow> v))"

text \<open>
  The block used for every other collection:
  \<^verbatim>\<open>try { x = JSON.parse(localStorage.getItem(KEY) || '[]'); } catch (e) { x = []; }\<close>
\<close>

definition read_or_empty :: "'a codec \<Rightarrow> storage \<Rightarrow> jsstring \<Rightarrow> 'a json" where
  "read_or_empty c store key =
     (let text =
            (case getItem store key of
               None \<Rightarrow> ascii ''[]''
             | Some s \<Rightarrow> if s = [] then ascii ''[]'' else s)
      in case JSON_parse c text of None \<Rightarrow> JArray [] | Some v \<Rightarrow> v)"

section \<open>\<open>loadData\<close> of the booking application (part_001)\<close>

definition default_users :: "jsstring \<Rightarrow> jsstring \<Rightarrow> studio_user list" where
  "default_users id1 id2 =
     [\<lparr>id_user = id1, username = ascii ''admin'', password = ascii ''admin'',
       role = ascii ''trainer'', fullName = txt_studio_manager, email = [], phone = [],
       goals = [], waterGoal = Num 2, assignedProgramId = None, metrics = [],
       joinedSessions = [], joinedGroups = [], purchasedProducts = []\<rparr>,
      \<lparr>id_user = id2, username = ascii ''demo'', password = ascii ''demo'',
       role = ascii ''client'', fullName = txt_demo_trainee, email = [], phone = [],
       goals = [], waterGoal = Num 2, assignedProgramId = None, metrics = [],
       joinedSessions = [], joinedGroups = [], purchasedProducts = []\<rparr>]"

definition default_program :: "jsstring \<Rightarrow> plan_exercise program" where
  "default_program id1 =
     \<lparr>id_program = id1, name_program = txt_basic_program,
      description_program = txt_basic_description,
      exercises_program =
        [\<lparr>name_pe = txt_squat, sets_pe = Num 3, reps_pe = Num 12, rest_pe = ascii ''60'',
          notes_pe = txt_keep_back_straight, video_pe = []\<rparr>,
         \<lparr>name_pe = txt_chest_press, sets_pe = Num 3, reps_pe = Num 10, rest_pe = ascii ''60'',
          notes_pe = [], video_pe = []\<rparr>]\<rparr>"

type_synonym loaded =
  "studio_user json \<times> plan_exercise program json \<times> session json \<times> group json \<times> product json"

text \<open>
  \<open>generateId k\<close> is the string returned by call number \<open>k\<close> of \<open>generateId()\<close> during this
  run of \<open>loadData\<close>. The result is the returned object
  \<open>{users, programs, sessions, groups, products}\<close> and the storage afterwards, or the
  fault that ended the run. The two seeding writes stand outside every \<open>try\<close>, so a
  refused write ends the run.
\<close>

definition loadData ::
  "quota \<Rightarrow> studio_user codec \<Rightarrow> plan_exercise program codec \<Rightarrow> session codec \<Rightarrow>
   group codec \<Rightarrow> product codec \<Rightarrow> (nat \<Rightarrow> jsstring) \<Rightarrow> storage \<Rightarrow>
   error + (loaded \<times> storage)" where
  "loadData accepts cu cp cs cg cpr generateId store =
     (let users0 = read_users cu store
      in case length_is_0 users0 of
           Inl e \<Rightarrow> Inl e
         | Inr usersEmpty \<Rightarrow>
             (let seeded = JArray (default_users (generateId 0) (generateId 1));
                  users' = (if usersEmpty then seeded else users0)
              in case (if usersEmpty
                       then setItem accepts store USERS_KEY (stringify cu seeded)
                       else Inr store) of
                   Inl e \<Rightarrow> Inl e
                 | Inr store1 \<Rightarrow>
                     (let n = (if usersEmpty then 2 else 0);
                          programs0 = read_or_empty cp store1 PROGRAMS_KEY
                      in case length_is_0 programs0 of
                           Inl e \<Rightarrow> Inl e
                         | Inr programsEmpty \<Rightarrow>
                             (case (if programsEmpty
                                    then push programs0 (default_program (generateId n))
                                    else Inr programs0) of
                                Inl e \<Rightarrow> Inl e
                              | Inr programs' \<Rightarrow>
                                  (case (if programsEmpty
                                         then setItem accepts store1 PROGRAMS_KEY
                                                (stringify cp programs')
                                         else Inr store1) of
                                     Inl e \<Rightarrow> Inl e
                                   | Inr store2 \<Rightarrow>
                                       (let sessions' = read_or_empty cs store2 SESSIONS_KEY;
                                            groups' = read_or_empty cg store2 GROUPS_KEY;
                                            products' = read_or_empty cpr store2 PRODUCTS_KEY
                                        in Inr ((users', programs', sessions', groups',
                                                 products'), store2)))))))"

text \<open>
  The mount effect of \<open>App\<close> copies the loaded collections into the state cells; nobody
  is logged in and the active page is the dashboard. The handlers are modelled on
  states whose collections are arrays.
\<close>

fun mount :: "loaded \<Rightarrow> state option" where
  "mount (JArray u, JArray p, JArray s, JArray g, JArray pr) =
     Some \<lparr>users = u, programs = p, sessions = s, groups = g, products = pr,
           currentUser = None, activePage = ascii ''dashboard''\<rparr>"
| "mount other = None"

section \<open>\<open>loadData\<close> of the workout application (part_000)\<close>

definition default_users_w :: "jsstring \<Rightarrow> jsstring \<Rightarrow> workout_user list" where
  "default_users_w id1 id2 =
     [\<lparr>id_user = id1, username = ascii ''admin'', password = ascii ''admin'',
       role = ascii ''trainer'', fullName = txt_studio_manager, email = [], phone = [],
       goals = [], waterGoal = Num 2, assignedProgramId = None, metrics = [],
       completedWorkouts = []\<rparr>,
      \<lparr>id_user = id2, username = ascii ''demo'', password = ascii ''demo'',
       role = ascii ''client'', fullName = txt_demo_trainee, email = [], phone = [],
       goals = [], waterGoal = Num 2, assignedProgramId = None, metrics = [],
       completedWorkouts = []\<rparr>]"

definition default_program_w ::
  "jsstring \<Rightarrow> jsstring \<Rightarrow> jsstring \<Rightarrow> workout_exercise workout_program" where
  "default_program_w id1 id2 id3 =
     \<lparr>id_program = id1, name_program = txt_basic_program,
      description_program = txt_basic_description,
      exercises_program =
        [\<lparr>id_we = id2, name_we = txt_squat, sets_we = Num 3, reps_we = Num 12,
          weight_we = Num 0, rest_we = Num 60, notes_we = txt_keep_back_straight,
          muscleGroup_we = txt_legs, video_we = [], completed_we = False\<rparr>,
         \<lparr>id_we = id3, name_we = txt_chest_press, sets_we = Num 3, reps_we = Num 10,
          weight_we = Num 0, rest_we = Num 60, notes_we = txt_breathe,
          muscleGroup_we = txt_chest, video_we = [], completed_we = False\<rparr>],
      difficulty = txt_medium, duration_program = txt_45_minutes,
      targetMuscles = [txt_legs, txt_chest, txt_back]\<rparr>"

definition default_exercises :: "(nat \<Rightarrow> jsstring) \<Rightarrow> nat \<Rightarrow> exercise list" where
  "default_exercises generateId n =
     [\<lparr>id_exercise = generateId n, name_exercise = txt_squat,
       muscleGroup = txt_legs, equipment = txt_bodyweight\<rparr>,
      \<lparr>id_exercise = generateId (n + 1), name_exercise = txt_chest_press,
       muscleGroup = txt_chest, equipment = txt_weights\<rparr>,
      \<lparr>id_exercise = generateId (n + 2), name_exercise = txt_back_pull,
       muscleGroup = txt_back, equipment = txt_cable\<rparr>,
      \<lparr>id_exercise = generateId (n + 3), name_exercise = txt_shoulder_press,
       muscleGroup = txt_shoulders, equipment = txt_weights\<rparr>,
      \<lparr>id_exercise = generateId (n + 4), name_exercise = txt_crunches,
       muscleGroup = txt_abs, equipment = txt_bodyweight\<rparr>,
      \<lparr>id_exercise = generateId (n + 5), name_exercise = txt_deadlift,
       muscleGroup = txt_legs, equipment = txt_weights\<rparr>]"

type_synonym 'r loaded_w =
  "workout_user json \<times> workout_exercise workout_program json \<times> 'r workout json \<times> exercise json"

definition loadData_w ::
  "quota \<Rightarrow> workout_user codec \<Rightarrow> workout_exercise workout_program codec \<Rightarrow>
   'r workout codec \<Rightarrow> exercise codec \<Rightarrow> (nat \<Rightarrow> jsstring) \<Rightarrow> storage \<Rightarrow>
   error + ('r loaded_w \<times> storage)" where
  "loadData_w accepts cu cp cw ce generateId store =
     (let users0 = read_users cu store
      in case length_is_0 users0 of
           Inl e \<Rightarrow> Inl e
         | Inr usersEmpty \<Rightarrow>
             (let seeded = JArray (default_users_w (generateId 0) (generateId 1));
                  users' = (if usersEmpty then seeded else users0)
              in case (if usersEmpty
                       then setItem accepts store USERS_KEY (stringify cu seeded)
                       else Inr store) of
                   Inl e \<Rightarrow> Inl e
                 | Inr store1 \<Rightarrow>
                     (let n = (if usersEmpty then 2 else 0);
                          programs0 = read_or_empty cp store1 PROGRAMS_KEY
                      in case length_is_0 programs0 of
                           Inl e \<Rightarrow> Inl e
                         | Inr programsEmpty \<Rightarrow>
                             (case (if programsEmpty
                                    then push programs0
                                           (default_program_w (generateId n) (generateId (n + 1))
                                              (generateId (n + 2)))
                                    else Inr programs0) of
                                Inl e \<Rightarrow> Inl e
                              | Inr programs' \<Rightarrow>
                                  (case (if programsEmpty
                                         then setItem accepts store1 PROGRAMS_KEY
                                                (stringify cp programs')
                                         else Inr store1) of
                                     Inl e \<Rightarrow> Inl e
                                   | Inr store2 \<Rightarrow>
                                       (let m = (if programsEmpty then n + 3 else n);
                                            workouts' = read_or_empty cw store2 WORKOUTS_KEY;
                                            exercises0 = read_or_empty ce store2 EXERCISES_KEY
                                        in case length_is_0 exercises0 of
                                             Inl e \<Rightarrow> Inl e
                                           | Inr exercisesEmpty \<Rightarrow>
                                               (let seededE =
                                                      JArray (default_exercises generateId m);
                                                    exercises' =
                                                      (if exercisesEmpty then seededE
                                                       else exercises0)
                                                in case (if exercisesEmpty
                                                         then setItem accepts store2 EXERCISES_KEY
                                                                (stringify ce seededE)
                                                         else Inr store2) of
                                                     Inl e \<Rightarrow> Inl e
                                                   | Inr store3 \<Rightarrow>
                                                       Inr ((users', programs', workouts',
                                                             exercises'), store3))))))))"

section \<open>Predicates of the specification\<close>

text \<open>
  A key is unreadable when it is missing or when \<open>JSON.parse\<close> rejects its text.
\<close>

definition unreadable :: "'a codec \<Rightarrow> storage \<Rightarrow> jsstring \<Rightarrow> bool" where
  "unreadable c store key =
     (case getItem store key of None \<Rightarrow> True | Some s \<Rightarrow> JSON_parse c s = None)"

text \<open>
  A key is well formed when it is unreadable or its text decodes to an array: what the
  save functions write is always the text of an array.
\<close>

definition array_or_unreadable :: "'a codec \<Rightarrow> storage \<Rightarrow> jsstring \<Rightarrow> bool" where
  "array_or_unreadable c store key =
     (case getItem store key of
        None \<Rightarrow> True
      | Some s \<Rightarrow>
          (case JSON_parse c s of
             None \<Rightarrow> True
           | Some v \<Rightarrow> (case v of JArray xs \<Rightarrow> True | _ \<Rightarrow> False)))"

text \<open>
  A run of \<open>loadData\<close> gives the documented defaults when it returns and the
  collection of every unreadable key is its default: the seeded accounts, the seeded
  program (its id one of the generated ids), and the empty array for sessions, groups
  and products.
\<close>

definition returns_defaults ::
  "studio_user codec \<Rightarrow> plan_exercise program codec \<Rightarrow> session codec \<Rightarrow> group codec \<Rightarrow>
   product codec \<Rightarrow> (nat \<Rightarrow> jsstring) \<Rightarrow> storage \<Rightarrow> error + (loaded \<times> storage) \<Rightarrow> bool" where
  "returns_defaults cu cp cs cg cpr generateId store r =
     (case r of
        Inl e \<Rightarrow> False
      | Inr ((u, p, s, g, pr), store') \<Rightarrow>
          (unreadable cu store USERS_KEY \<longrightarrow>
             u = JArray (default_users (generateId 0) (generateId 1)))
          \<and> (unreadable cp store PROGRAMS_KEY \<longrightarrow>
               (\<exists>k \<in> {0, 2}. p = JArray [default_program (generateId k)]))
          \<and> (unreadable cs store SESSIONS_KEY \<longrightarrow> s = JArray [])
          \<and> (unreadable cg store GROUPS_KEY \<longrightarrow> g = JArray [])
          \<and> (unreadable cpr store PRODUCTS_KEY \<longrightarrow> pr = JArray []))"

text \<open>
  The same for the workout application: seeded accounts, seeded program, empty
  workouts, seeded exercise library.
\<close>

definition returns_defaults_w ::
  "workout_user codec \<Rightarrow> workout_exercise workout_program codec \<Rightarrow> 'r workout codec \<Rightarrow>
   exercise codec \<Rightarrow> (nat \<Rightarrow> jsstring) \<Rightarrow> storage \<Rightarrow> error + ('r loaded_w \<times> storage) \<Rightarrow>
   bool" where
  "returns_defaults_w cu cp cw ce generateId store r =
     (case r of
        Inl e \<Rightarrow> False
      | Inr ((u, p, w, e), store') \<Rightarrow>
          (unreadable cu store USERS_KEY \<longrightarrow>
             u = JArray (default_users_w (generateId 0) (generateId 1)))
          \<and> (unreadable cp store PROGRAMS_KEY \<longrightarrow>
               (\<exists>k \<in> {0, 2}. p = JArray [default_program_w (generateId k)
                                           (generateId (k + 1)) (generateId (k + 2))]))
          \<and> (unreadable cw store WORKOUTS_KEY \<longrightarrow> w = JArray [])
          \<and> (unreadable ce store EXERCISES_KEY \<longrightarrow>
               (\<exists>n \<in> {0, 2, 3, 5}. e = JArray (default_exercises generateId n))))"

section \<open>Concrete data for running the model\<close>

text \<open>
  Toy codecs: \<open>reject_all\<close> rejects every text (but \<open>[]\<close>, see \<open>JSON_parse\<close>);
  \<open>decode_as xs\<close> decodes the one text \<open><stored>\<close> to the array \<open>xs\<close>, and \<open>decode_to v\<close>
  decodes it to the JSON value \<open>v\<close>.
\<close>

definition always_accepts :: quota where
  \<comment> \<open>a browser that accepts every write\<close>
  "always_accepts = (\<lambda>store key v. True)"

definition never_accepts :: quota where
  \<comment> \<open>a browser that refuses every write (storage full or disabled)\<close>
  "never_accepts = (\<lambda>store key v. False)"

definition reject_all :: "'a codec" where
  "reject_all = \<lparr>parse = (\<lambda>s. None), stringify = (\<lambda>v. ascii ''<json>'')\<rparr>"


definition decode_to :: "'a json \<Rightarrow> 'a codec" where
  "decode_to v =
     \<lparr>parse = (\<lambda>s. if s = ascii ''<stored>'' then Some v else None),
      stringify = (\<lambda>v. ascii ''<json>'')\<rparr>"

definition example_ids :: "nat \<Rightarrow> jsstring" where
  "example_ids k = ascii (''_id'' @ replicate k CHR ''x'')"





definition corrupt_store :: storage where
  "corrupt_store = (\<lambda>key. Some (ascii ''{not json''))"

text \<open>
  Two first starts of the booking application that end in a fault. In the first the
  storage is empty and the browser refuses every write. In the second the users key
  (and every key but one) is missing and the browser accepts every write, but the
  programs key holds the text of an empty JSON string.
\<close>

definition refused_first_load :: "error + (loaded \<times> storage)" where
  "refused_first_load =
     loadData never_accepts reject_all reject_all reject_all reject_all reject_all
       example_ids Map.empty"

definition empty_string_load :: "error + (loaded \<times> storage)" where
  "empty_string_load =
     loadData always_accepts reject_all (decode_to (JString [])) reject_all reject_all reject_all
       example_ids (Map.empty(PROGRAMS_KEY \<mapsto> ascii ''<stored>''))"

text \<open>The state after a first start on empty storage, with ids \<open>_u1\<close>, \<open>_u2\<close>, \<open>_p1\<close>.\<close>

definition fresh_state :: state where
  "fresh_state =
     \<lparr>users = default_users (ascii ''_u1'') (ascii ''_u2''),
      programs = [default_program (ascii ''_p1'')],
      sessions = [], groups = [], products = [],
      currentUser = None, activePage = ascii ''dashboard''\<rparr>"

definition logged_in :: "state \<Rightarrow> jsstring \<Rightarrow> jsstring \<Rightarrow> state" where
  \<comment> \<open>the state after a login attempt\<close>
  "logged_in st name pw = snd (handleLogin st name pw)"

text \<open>
  The booking scenario: Alice registers, the trainer creates a session and a group of
  capacity 2, then the three users log in and book one after the other.
\<close>

definition three_users :: state where
  "three_users =
     snd (handleRegister fresh_state (ascii ''_u3'') (ascii ''alice'') (ascii ''pw123'')
            (ascii ''client''))"

definition with_session :: state where
  "with_session =
     createSession (logged_in three_users (ascii ''admin'') (ascii ''admin''))
       (ascii ''_s1'') (ascii ''Yoga'') (ascii ''2025-01-01'') (ascii ''10:00'')
       (ascii ''2'') (ascii ''morning class'')"

definition with_group :: state where
  "with_group =
     createGroup (logged_in three_users (ascii ''admin'') (ascii ''admin''))
       (ascii ''_g1'') (ascii ''Runners'') (ascii ''2025-01-01'') (ascii ''10:00'')
       (ascii ''2'') (ascii ''running group'')"

definition two_booked :: state where
  "two_booked =
     bookSession
       (logged_in (bookSession with_session (ascii ''_s1'')) (ascii ''demo'') (ascii ''demo''))
       (ascii ''_s1'')"

definition third_booking :: state where
  "third_booking =
     bookSession (logged_in two_booked (ascii ''alice'') (ascii ''pw123'')) (ascii ''_s1'')"

definition once_booked :: state where
  "once_booked = bookSession with_session (ascii ''_s1'')"

definition twice_booked :: state where
  "twice_booked = bookSession once_booked (ascii ''_s1'')"

definition once_joined :: state where
  "once_joined = joinGroup with_group (ascii ''_g1'')"

definition twice_joined :: state where
  "twice_joined = joinGroup once_joined (ascii ''_g1'')"

definition two_joined :: state where
  "two_joined =
     joinGroup
       (logged_in (joinGroup with_group (ascii ''_g1'')) (ascii ''demo'') (ascii ''demo''))
       (ascii ''_g1'')"

text \<open>The demo client after buying product \<open>_x1\<close>.\<close>

definition demo_bought :: state where
  "demo_bought =
     projr (purchaseProduct (logged_in fresh_state (ascii ''demo'') (ascii ''demo''))
              (ascii ''_x1''))"



text \<open>The workout application after a first start, nobody logged in.\<close>

definition fresh_wstate :: "jsstring wstate" where
  "fresh_wstate =
     \<lparr>users_w = default_users_w (ascii ''_u1'') (ascii ''_u2''),
      programs_w = [default_program_w (ascii ''_p1'') (ascii ''_e1'') (ascii ''_e2'')],
      workouts = [], exercises = default_exercises example_ids 5,
      currentUser_w = None, activePage_w = ascii ''dashboard''\<rparr>"

definition trainer_wstate :: "jsstring wstate" where
  "trainer_wstate = fresh_wstate\<lparr>currentUser_w := Some (hd (users_w fresh_wstate))\<rparr>"

section \<open>Facts about strings and hashing\<close>

lemma ascii_inj [simp]: "ascii s = ascii t \<longleftrightarrow> s = t"
proof -
  have "inj (\<lambda>c. (of_nat (of_char c) :: 16 word))"
  proof (rule injI)
    fix x y :: char
    assume "(of_nat (of_char x) :: 16 word) = of_nat (of_char y)"
    then have "unat (of_nat (of_char x) :: 16 word) = unat (of_nat (of_char y) :: 16 word)"
      by simp
    moreover have "(of_char x :: nat) < 65536" "(of_char y :: nat) < 65536"
      by (rule order_less_trans [OF String.nat_of_char_less_256], simp)+
    ultimately have "(of_char x :: nat) = of_char y"
      by (simp add: unat_of_nat)
    then show "x = y" by simp
  qed
  then show ?thesis
    unfolding ascii_def by (simp add: inj_map_eq_map)
qed

lemma ascii_Nil [simp]: "ascii s = [] \<longleftrightarrow> s = []" "[] = ascii s \<longleftrightarrow> s = []"
  by (auto simp: ascii_def)

lemma length_ascii [simp]: "length (ascii s) = length s"
  by (simp add: ascii_def)

lemma length_sha256: "length (sha256 m) = 32"
proof -
  obtain a b c d e f g h where
    "sha_blocks (length (sha_pad m) div 64) H256 (sha_pad m) = (a, b, c, d, e, f, g, h)"
    by (metis prod_cases5 prod_cases4)
  then show ?thesis
    by (simp add: sha256_def bytes32_def)
qed

lemma length_hex_byte: "length (padStart 2 c (toString16 b)) = 2"
  by (simp add: padStart_def toString16_def)

lemma length_hashPassword: "length (hashPassword p) = 64"
proof -
  have "length (concat (map (\<lambda>b. padStart 2 c (toString16 b)) bs)) = 2 * length bs" for c bs
    by (induction bs) (simp_all add: length_hex_byte)
  then show ?thesis
    by (simp add: hashPassword_def length_sha256)
qed

text \<open>
  The digest of \<open>pw123\<close>, computed by the model with the kernel's simplifier; it is the
  value the standard SHA-256 gives for these five bytes.
\<close>

lemma hashPassword_pw123:
  "hashPassword (ascii ''pw123'') =
     ascii ''23d47445adfb8991789b459b6ba1b974d727d310aa9d80b7c2875b9430c0ba25''"
  by code_simp

lemma hashPassword_nope:
  "hashPassword (ascii ''nope'') =
     ascii ''ca3704aa0b06f5954c79ee837faa152d84d6b2d42838f0637a15eda8337dbdce''"
  by code_simp

text \<open>
  Two more checks of the model against the standards: a message that needs two
  blocks, and the encoder on text outside ASCII (a Hebrew letter, the euro sign, a
  surrogate pair, and surrogates without a partner).
\<close>

lemma hashPassword_two_blocks:
  "hashPassword (ascii ''abcdbcdecdefdefgefghfghighijhijkijkljklmklmnlmnomnopnopq'') =
     ascii ''248d6a61d20638b8e5c026930c3e6039a33ce45964ff2167f6ecedd419db06c1''"
  by code_simp

lemma encode_examples:
  "encode (ascii ''pw'') = [0x70, 0x77]"
  "encode [0x5D0] = [0xD7, 0x90]"
  "encode [0x20AC] = [0xE2, 0x82, 0xAC]"
  "encode [0xD83D, 0xDE00] = [0xF0, 0x9F, 0x98, 0x80]"
  "encode [0xD83D, 0x41] = [0xEF, 0xBF, 0xBD, 0x41]"
  "encode [0xDE00] = [0xEF, 0xBF, 0xBD]"
  by code_simp+

lemma parseInt_2: "parseInt (ascii ''2'') = Num 2"
  by (simp add: parseInt_def ascii_def isStrWhiteSpaceChar_def isDigit_def digitsValue_def
      Let_def)

lemma parseInt_no_digits: "parseInt (ascii ''abc'') = NaN" "parseInt [] = NaN"
  by (simp_all add: parseInt_def ascii_def isStrWhiteSpaceChar_def isDigit_def Let_def)

lemmas run_defs = handleRegister_def handleLogin_def createSession_def createGroup_def
  bookSession_def joinGroup_def purchaseProduct_def fresh_state_def default_users_def
  logged_in_def Let_def length_ge_def parseInt_2

lemma find_map_same_test:
  assumes "\<And>x. P (f x) = P x"
  shows "find P (map f xs) = map_option f (find P xs)"
  using assms by (induction xs) simp_all

section \<open>Facts about loading\<close>

lemma keys_distinct:
  "distinct [USERS_KEY, PROGRAMS_KEY, SESSIONS_KEY, GROUPS_KEY, PRODUCTS_KEY, WORKOUTS_KEY,
             EXERCISES_KEY]"
  by (simp add: USERS_KEY_def PROGRAMS_KEY_def SESSIONS_KEY_def GROUPS_KEY_def
      PRODUCTS_KEY_def WORKOUTS_KEY_def EXERCISES_KEY_def)

lemma read_or_empty_update:
  "k \<noteq> key \<Longrightarrow> read_or_empty c (store(k \<mapsto> v)) key = read_or_empty c store key"
  by (simp add: read_or_empty_def getItem_def)

lemma read_users_unreadable:
  "unreadable c store USERS_KEY \<Longrightarrow> read_users c store = JArray []"
  by (simp add: unreadable_def read_users_def split: option.splits)

lemma read_or_empty_unreadable:
  "unreadable c store key \<Longrightarrow> read_or_empty c store key = JArray []"
  by (auto simp: unreadable_def read_or_empty_def JSON_parse_def split: option.splits)

lemma read_users_array:
  "array_or_unreadable c store USERS_KEY \<Longrightarrow> \<exists>xs. read_users c store = JArray xs"
  by (auto simp: array_or_unreadable_def read_users_def split: option.splits json.splits)

lemma read_or_empty_array:
  "array_or_unreadable c store key \<Longrightarrow> \<exists>xs. read_or_empty c store key = JArray xs"
  by (auto simp: array_or_unreadable_def read_or_empty_def JSON_parse_def
      split: option.splits json.splits)

lemma read_empty_storage:
  "read_users c Map.empty = JArray []" "read_or_empty c Map.empty key = JArray []"
  by (simp_all add: read_users_def read_or_empty_def getItem_def JSON_parse_def)

text \<open>
  When every collection read from storage is an array, \<open>loadData\<close> can only end in a
  refused write or return, and what it returns is, for each collection, the stored
  array, or its seed when the stored array is empty. It returns when the browser
  accepts every write, and it writes nothing when no collection needs a seed.
\<close>

lemma loadData_arrays:
  assumes "read_users cu store = JArray us"
    and "read_or_empty cp store PROGRAMS_KEY = JArray ps"
    and "read_or_empty cs store SESSIONS_KEY = JArray ss"
    and "read_or_empty cg store GROUPS_KEY = JArray gs"
    and "read_or_empty cpr store PRODUCTS_KEY = JArray prs"
  shows "loadData accepts cu cp cs cg cpr generateId store = Inl QuotaExceededError
         \<or> (\<exists>store'. loadData accepts cu cp cs cg cpr generateId store =
           Inr ((JArray (if us = [] then default_users (generateId 0) (generateId 1) else us),
                 JArray (if ps = [] then [default_program (generateId (if us = [] then 2 else 0))]
                         else ps),
                 JArray ss, JArray gs, JArray prs), store'))"
  using assms keys_distinct
  by (simp add: loadData_def setItem_def Let_def read_or_empty_update)

lemma loadData_arrays_accepted:
  assumes "read_users cu store = JArray us"
    and "read_or_empty cp store PROGRAMS_KEY = JArray ps"
    and "read_or_empty cs store SESSIONS_KEY = JArray ss"
    and "read_or_empty cg store GROUPS_KEY = JArray gs"
    and "read_or_empty cpr store PRODUCTS_KEY = JArray prs"
  shows "\<exists>store'. loadData always_accepts cu cp cs cg cpr generateId store =
           Inr ((JArray (if us = [] then default_users (generateId 0) (generateId 1) else us),
                 JArray (if ps = [] then [default_program (generateId (if us = [] then 2 else 0))]
                         else ps),
                 JArray ss, JArray gs, JArray prs), store')"
  using assms keys_distinct
  by (simp add: loadData_def setItem_def always_accepts_def Let_def read_or_empty_update)


lemma loadData_w_arrays:
  assumes "read_users cu store = JArray us"
    and "read_or_empty cp store PROGRAMS_KEY = JArray ps"
    and "read_or_empty cw store WORKOUTS_KEY = JArray ws"
    and "read_or_empty ce store EXERCISES_KEY = JArray es"
  shows "loadData_w accepts cu cp cw ce generateId store = Inl QuotaExceededError
         \<or> (\<exists>store'. loadData_w accepts cu cp cw ce generateId store =
           Inr ((JArray (if us = [] then default_users_w (generateId 0) (generateId 1) else us),
                 JArray (if ps = []
                         then [default_program_w (generateId (if us = [] then 2 else 0))
                                 (generateId ((if us = [] then 2 else 0) + 1))
                                 (generateId ((if us = [] then 2 else 0) + 2))]
                         else ps),
                 JArray ws,
                 JArray (if es = []
                         then default_exercises generateId
                                ((if us = [] then 2 else 0) + (if ps = [] then 3 else 0))
                         else es)), store'))"
  using assms keys_distinct
  by (simp add: loadData_w_def setItem_def Let_def read_or_empty_update)

lemma loadData_w_arrays_accepted:
  assumes "read_users cu store = JArray us"
    and "read_or_empty cp store PROGRAMS_KEY = JArray ps"
    and "read_or_empty cw store WORKOUTS_KEY = JArray ws"
    and "read_or_empty ce store EXERCISES_KEY = JArray es"
  shows "\<exists>store'. loadData_w always_accepts cu cp cw ce generateId store =
           Inr ((JArray (if us = [] then default_users_w (generateId 0) (generateId 1) else us),
                 JArray (if ps = []
                         then [default_program_w (generateId (if us = [] then 2 else 0))
                                 (generateId ((if us = [] then 2 else 0) + 1))
                                 (generateId ((if us = [] then 2 else 0) + 2))]
                         else ps),
                 JArray ws,
                 JArray (if es = []
                         then default_exercises generateId
                                ((if us = [] then 2 else 0) + (if ps = [] then 3 else 0))
                         else es)), store')"
  using assms keys_distinct
  by (simp add: loadData_w_def setItem_def always_accepts_def Let_def read_or_empty_update)


lemma first_load:
  "\<exists>store'. loadData always_accepts cu cp cs cg cpr generateId Map.empty =
     Inr ((JArray (default_users (generateId 0) (generateId 1)),
           JArray [default_program (generateId 2)], JArray [], JArray [], JArray []), store')"
  using loadData_arrays_accepted
    [of cu Map.empty "[]" cp "[]" cs "[]" cg "[]" cpr "[]" generateId]
  by (simp add: read_empty_storage)

text \<open>A null users collection makes \<open>loadData\<close> fault, whatever the browser accepts.\<close>

lemma loadData_null_users_faults:
  "read_users cu store = JNull \<Longrightarrow>
     loadData accepts cu cp cs cg cpr generateId store = Inl TypeError"
  by (simp add: loadData_def)

section \<open>Claim C1: booking a full session\<close>

text \<open>
  The part of the claim that holds: booking a session that is at capacity leaves the
  sessions, and so every participant list, as they were; likewise for groups.
\<close>

lemma bookSession_full_keeps_sessions:
  assumes "\<forall>s \<in> set (sessions st). id_session s = sessionId \<longrightarrow>
             length_ge (participants s) (capacity_session s)"
  shows "sessions (bookSession st sessionId) = sessions st"
proof (cases "currentUser st")
  case None
  then show ?thesis by (simp add: bookSession_def)
next
  case (Some cu)
  have "map (\<lambda>s. if id_session s = sessionId then
                   (if id_user cu \<in> set (participants s) then s
                    else if length_ge (participants s) (capacity_session s) then s
                    else s\<lparr>participants := participants s @ [id_user cu]\<rparr>)
                 else s) (sessions st) = map (\<lambda>s. s) (sessions st)"
    using assms by (intro map_cong) auto
  with Some show ?thesis by (simp add: bookSession_def)
qed

lemma joinGroup_full_keeps_groups:
  assumes "\<forall>g \<in> set (groups st). id_group g = groupId \<longrightarrow>
             length_ge (members g) (capacity_group g)"
  shows "groups (joinGroup st groupId) = groups st"
proof (cases "currentUser st")
  case None
  then show ?thesis by (simp add: joinGroup_def)
next
  case (Some cu)
  have "map (\<lambda>g. if id_group g = groupId then
                   (if id_user cu \<in> set (members g)
                       \<or> length_ge (members g) (capacity_group g) then g
                    else g\<lparr>members := members g @ [id_user cu]\<rparr>)
                 else g) (groups st) = map (\<lambda>g. g) (groups st)"
    using assms by (intro map_cong) auto
  with Some show ?thesis by (simp add: joinGroup_def)
qed

lemma three_users_eval:
  "three_users = fresh_state\<lparr>users := users fresh_state @
      [\<lparr>id_user = ascii ''_u3'', username = ascii ''alice'',
        password = ascii ''23d47445adfb8991789b459b6ba1b974d727d310aa9d80b7c2875b9430c0ba25'',
        role = ascii ''client'',
        fullName = [], email = [], phone = [], goals = [], waterGoal = Num 2,
        assignedProgramId = None, metrics = [],
        joinedSessions = [], joinedGroups = [], purchasedProducts = []\<rparr>]\<rparr>"
  unfolding three_users_def handleRegister_def hashPassword_pw123
  by (simp add: fresh_state_def default_users_def Let_def)

text \<open>
  Claim C1. A \<open>bookSession\<close> call on a session whose participant list has reached the
  capacity should leave the participant list unchanged and should not add the session
  id to the caller's \<open>joinedSessions\<close>; with capacity 2 and three distinct users, the
  third booking should leave two participants and the third user without the session
  id. The code keeps the participant list, but its second setter appends the session id
  to the caller's \<open>joinedSessions\<close> whether or not the booking took place. Run on the
  scenario: after two bookings the session (capacity 2) holds \<open>_u1\<close> and \<open>_u2\<close> and the
  third user has joined nothing; after the third user's call the participants are the
  same two, and the third user's \<open>joinedSessions\<close> holds the session id.
\<close>

theorem third_booking_adds_joined_session:
  "map capacity_session (sessions two_booked) = [Num 2]
   \<and> map participants (sessions two_booked) = [[ascii ''_u1'', ascii ''_u2'']]
   \<and> map joinedSessions (users two_booked) = [[ascii ''_s1''], [ascii ''_s1''], []]
   \<and> map id_user (users third_booking) = [ascii ''_u1'', ascii ''_u2'', ascii ''_u3'']
   \<and> map_option id_user (currentUser third_booking) = Some (ascii ''_u3'')
   \<and> map participants (sessions third_booking) = [[ascii ''_u1'', ascii ''_u2'']]
   \<and> map joinedSessions (users third_booking) =
        [[ascii ''_s1''], [ascii ''_s1''], [ascii ''_s1'']]"
  by (simp add: third_booking_def two_booked_def with_session_def three_users_eval run_defs
      hashPassword_pw123)

section \<open>Claim C2: rejected registrations\<close>

text \<open>
  Claim C2. A \<open>register\<close> call whose username is that of a user already in the users
  collection returns \<open>success: false\<close> and leaves the users collection (indeed the whole
  state) unchanged; so does a call whose username or password is empty.
\<close>

theorem register_rejects:
  assumes "username' = [] \<or> password' = [] \<or> (\<exists>u \<in> set (users st). username u = username')"
  shows "success (fst (handleRegister st newId username' password' role')) = False
         \<and> snd (handleRegister st newId username' password' role') = st"
proof -
  have "find (\<lambda>u. username u = username') (users st) \<noteq> None"
    if "\<exists>u \<in> set (users st). username u = username'"
    using that by (auto simp: find_None_iff)
  with assms show ?thesis
    by (cases "username' = [] \<or> password' = []") (simp_all add: handleRegister_def)
qed

theorem register_rejects_witness:
  "hd (users fresh_state) \<in> set (users fresh_state)
   \<and> username (hd (users fresh_state)) = ascii ''admin''
   \<and> success (fst (handleRegister fresh_state (ascii ''_n1'') (ascii ''admin'')
                     (ascii ''secret'') (ascii ''client''))) = False
   \<and> snd (handleRegister fresh_state (ascii ''_n1'') (ascii ''admin'')
            (ascii ''secret'') (ascii ''client'')) = fresh_state
   \<and> success (fst (handleRegister fresh_state (ascii ''_n1'') []
                     (ascii ''secret'') (ascii ''client''))) = False
   \<and> snd (handleRegister fresh_state (ascii ''_n1'') (ascii ''bob'') []
            (ascii ''client'')) = fresh_state"
  using register_rejects [of "ascii ''admin''" "ascii ''secret''" fresh_state "ascii ''_n1''"
      "ascii ''client''"]
    register_rejects [of "[]" "ascii ''secret''" fresh_state "ascii ''_n1''" "ascii ''client''"]
    register_rejects [of "ascii ''bob''" "[]" fresh_state "ascii ''_n1''" "ascii ''client''"]
  by (simp add: fresh_state_def default_users_def)

section \<open>Claim C3: enrolling twice\<close>

text \<open>
  Claim C3. A \<open>bookSession\<close> (or \<open>joinGroup\<close>) call by a user whose id is already in the
  session's participants (the group's members) should change nothing: neither the
  sessions (groups) nor the users collection. The code leaves the sessions and groups
  as they were, but appends the id once more to the caller's \<open>joinedSessions\<close>
  (\<open>joinedGroups\<close>): the append to the user is not guarded by the membership test that
  guards the session. Run on the scenario, where the trainer \<open>_u1\<close> books session \<open>_s1\<close>
  twice and joins group \<open>_g1\<close> twice.
\<close>

theorem double_enrolment_changes_users:
  "map participants (sessions once_booked) = [[ascii ''_u1'']]
   \<and> map joinedSessions (users once_booked) = [[ascii ''_s1''], [], []]
   \<and> sessions twice_booked = sessions once_booked
   \<and> map joinedSessions (users twice_booked) = [[ascii ''_s1'', ascii ''_s1''], [], []]
   \<and> users twice_booked \<noteq> users once_booked
   \<and> map members (groups once_joined) = [[ascii ''_u1'']]
   \<and> map joinedGroups (users once_joined) = [[ascii ''_g1''], [], []]
   \<and> groups twice_joined = groups once_joined
   \<and> map joinedGroups (users twice_joined) = [[ascii ''_g1'', ascii ''_g1''], [], []]
   \<and> users twice_joined \<noteq> users once_joined"
  by (simp add: twice_booked_def once_booked_def twice_joined_def once_joined_def
      with_session_def with_group_def three_users_eval run_defs)

section \<open>Claim C4: registering, then logging in\<close>

text \<open>
  Why the login succeeds: the stored credential of a registered user is a digest of 64
  code units, so \<open>handleLogin\<close> hashes the password it is given before comparing.
\<close>

lemma login_accepts_hashed_credential:
  assumes "find (\<lambda>u. username u = n) (users st) = Some u"
    and "password u = hashPassword p"
  shows "handleLogin st n p =
           (\<lparr>success = True, message = None, user = None\<rparr>,
            st\<lparr>currentUser := Some u, activePage := ascii ''dashboard''\<rparr>)"
  using assms by (simp add: handleLogin_def length_hashPassword)

lemma login_compares_digest_when_64:
  assumes "find (\<lambda>u. username u = n) (users st) = Some u"
  shows "length (password u) = 64 \<Longrightarrow>
           success (fst (handleLogin st n p)) \<longleftrightarrow> hashPassword p = password u"
    and "length (password u) \<noteq> 64 \<Longrightarrow>
           success (fst (handleLogin st n p)) \<longleftrightarrow> p = password u"
  using assms by (simp_all add: handleLogin_def Let_def)

lemma find_appended:
  assumes "\<not> (\<exists>x \<in> set xs. P x)" and "P y"
  shows "find P (xs @ [y]) = Some y"
  using assms by (induction xs) simp_all

lemma register_then_login_general:
  assumes "name \<noteq> []" and "pw \<noteq> []"
    and "\<not> (\<exists>u \<in> set (users st). username u = name)"
  shows "let reg = handleRegister st newId name pw r;
             st1 = snd reg;
             new = last (users st1)
         in success (fst reg)
            \<and> users st1 = users st @ [new]
            \<and> id_user new = newId \<and> username new = name \<and> role new = r
            \<and> password new = hashPassword pw
            \<and> length (password new) = 64
            \<and> handleLogin st1 name pw =
                 (\<lparr>success = True, message = None, user = None\<rparr>,
                  st1\<lparr>currentUser := Some new, activePage := ascii ''dashboard''\<rparr>)
            \<and> (\<forall>p'. hashPassword p' \<noteq> hashPassword pw \<longrightarrow>
                   handleLogin st1 name p' =
                     (\<lparr>success = False, message = Some msg_wrong_password, user = None\<rparr>,
                      st1))"
proof -
  define new :: studio_user where
    "new = \<lparr>id_user = newId, username = name, password = hashPassword pw, role = r,
            fullName = [], email = [], phone = [], goals = [], waterGoal = Num 2,
            assignedProgramId = None, metrics = [],
            joinedSessions = [], joinedGroups = [], purchasedProducts = []\<rparr>"
  have none: "find (\<lambda>u. username u = name) (users st) = None"
    using assms(3) by (auto simp: find_None_iff)
  have reg: "handleRegister st newId name pw r =
               (\<lparr>success = True, message = Some msg_registered, user = None\<rparr>,
                st\<lparr>users := users st @ [new]\<rparr>)"
    using assms(1,2) none by (simp add: handleRegister_def new_def)
  have found: "find (\<lambda>u. username u = name) (users st @ [new]) = Some new"
    using assms(3) by (intro find_appended) (simp_all add: new_def)
  have pw: "password new = hashPassword pw" "length (password new) = 64"
    by (simp_all add: new_def length_hashPassword)
  have fields: "id_user new = newId" "username new = name" "role new = r"
    by (simp_all add: new_def)
  show ?thesis
    unfolding reg Let_def
    using found pw fields by (simp add: handleLogin_def)
qed

text \<open>
  Claim C4. On a fresh store (empty storage, a browser that accepts the seeding writes:
  \<open>loadData\<close> seeds the two default accounts), \<open>register("alice", "pw123", "client")\<close>
  succeeds and appends a user whose stored credential is the SHA-256 digest of the
  password as 64 lowercase hexadecimal digits, not the text \<open>pw123\<close>; a following
  \<open>login("alice", "pw123")\<close> succeeds and makes that user the current user, while a
  login with another password is refused. This holds for every JSON codec, every
  sequence of generated ids and every id given to the new user. The login succeeds
  because \<open>handleLogin\<close> hashes the input before comparing whenever the stored
  credential has length 64: for the matched user, a credential of length 64 is
  accepted exactly when it is the digest of the input, and a credential of any other
  length exactly when it is the input itself. In general, registering a new name with
  a non-empty password on any state stores the digest, and the same name and password
  then log in, while every password with another digest is refused.
\<close>

theorem register_then_login:
  "(\<exists>loaded store' st0.
      loadData always_accepts cu cp cs cg cpr generateId Map.empty = Inr (loaded, store')
      \<and> mount loaded = Some st0
      \<and> map username (users st0) = [ascii ''admin'', ascii ''demo'']
      \<and> (let reg = handleRegister st0 newId (ascii ''alice'') (ascii ''pw123'') (ascii ''client'');
              st1 = snd reg;
              alice = last (users st1);
              login = handleLogin st1 (ascii ''alice'') (ascii ''pw123'');
              refused = handleLogin st1 (ascii ''alice'') (ascii ''nope'')
          in success (fst reg)
             \<and> users st1 = users st0 @ [alice]
             \<and> username alice = ascii ''alice''
             \<and> password alice = hashPassword (ascii ''pw123'')
             \<and> password alice =
                 ascii ''23d47445adfb8991789b459b6ba1b974d727d310aa9d80b7c2875b9430c0ba25''
             \<and> length (password alice) = 64
             \<and> password alice \<noteq> ascii ''pw123''
             \<and> success (fst login)
             \<and> currentUser (snd login) = Some alice
             \<and> refused =
                 (\<lparr>success = False, message = Some msg_wrong_password, user = None\<rparr>, st1)))
   \<and> (\<forall>u. find (\<lambda>u. username u = n) (users st) = Some u \<longrightarrow>
          (length (password u) = 64 \<longrightarrow>
             (success (fst (handleLogin st n p)) \<longleftrightarrow> hashPassword p = password u))
          \<and> (length (password u) \<noteq> 64 \<longrightarrow>
             (success (fst (handleLogin st n p)) \<longleftrightarrow> p = password u)))
   \<and> (name \<noteq> [] \<and> pw \<noteq> [] \<and> \<not> (\<exists>u \<in> set (users st). username u = name) \<longrightarrow>
        (let reg = handleRegister st newId name pw r;
             st1 = snd reg;
             new = last (users st1)
         in success (fst reg)
            \<and> users st1 = users st @ [new]
            \<and> id_user new = newId \<and> username new = name \<and> role new = r
            \<and> password new = hashPassword pw
            \<and> length (password new) = 64
            \<and> handleLogin st1 name pw =
                 (\<lparr>success = True, message = None, user = None\<rparr>,
                  st1\<lparr>currentUser := Some new, activePage := ascii ''dashboard''\<rparr>)
            \<and> (\<forall>p'. hashPassword p' \<noteq> hashPassword pw \<longrightarrow>
                   handleLogin st1 name p' =
                     (\<lparr>success = False, message = Some msg_wrong_password, user = None\<rparr>,
                      st1))))"
proof (intro conjI)
  obtain store' where L:
    "loadData always_accepts cu cp cs cg cpr generateId Map.empty =
       Inr ((JArray (default_users (generateId 0) (generateId 1)),
             JArray [default_program (generateId 2)], JArray [], JArray [], JArray []), store')"
    using first_load by blast
  show "\<exists>loaded store' st0.
      loadData always_accepts cu cp cs cg cpr generateId Map.empty = Inr (loaded, store')
      \<and> mount loaded = Some st0
      \<and> map username (users st0) = [ascii ''admin'', ascii ''demo'']
      \<and> (let reg = handleRegister st0 newId (ascii ''alice'') (ascii ''pw123'') (ascii ''client'');
              st1 = snd reg;
              alice = last (users st1);
              login = handleLogin st1 (ascii ''alice'') (ascii ''pw123'');
              refused = handleLogin st1 (ascii ''alice'') (ascii ''nope'')
          in success (fst reg)
             \<and> users st1 = users st0 @ [alice]
             \<and> username alice = ascii ''alice''
             \<and> password alice = hashPassword (ascii ''pw123'')
             \<and> password alice =
                 ascii ''23d47445adfb8991789b459b6ba1b974d727d310aa9d80b7c2875b9430c0ba25''
             \<and> length (password alice) = 64
             \<and> password alice \<noteq> ascii ''pw123''
             \<and> success (fst login)
             \<and> currentUser (snd login) = Some alice
             \<and> refused =
                 (\<lparr>success = False, message = Some msg_wrong_password, user = None\<rparr>, st1))"
    unfolding L
    by (simp add: handleRegister_def handleLogin_def default_users_def Let_def
        hashPassword_pw123 hashPassword_nope)
next
  show "\<forall>u. find (\<lambda>u. username u = n) (users st) = Some u \<longrightarrow>
          (length (password u) = 64 \<longrightarrow>
             (success (fst (handleLogin st n p)) \<longleftrightarrow> hashPassword p = password u))
          \<and> (length (password u) \<noteq> 64 \<longrightarrow>
             (success (fst (handleLogin st n p)) \<longleftrightarrow> p = password u))"
    using login_compares_digest_when_64 by blast
next
  show "name \<noteq> [] \<and> pw \<noteq> [] \<and> \<not> (\<exists>u \<in> set (users st). username u = name) \<longrightarrow>
        (let reg = handleRegister st newId name pw r;
             st1 = snd reg;
             new = last (users st1)
         in success (fst reg)
            \<and> users st1 = users st @ [new]
            \<and> id_user new = newId \<and> username new = name \<and> role new = r
            \<and> password new = hashPassword pw
            \<and> length (password new) = 64
            \<and> handleLogin st1 name pw =
                 (\<lparr>success = True, message = None, user = None\<rparr>,
                  st1\<lparr>currentUser := Some new, activePage := ascii ''dashboard''\<rparr>)
            \<and> (\<forall>p'. hashPassword p' \<noteq> hashPassword pw \<longrightarrow>
                   handleLogin st1 name p' =
                     (\<lparr>success = False, message = Some msg_wrong_password, user = None\<rparr>,
                      st1)))"
    using register_then_login_general [of name pw st newId r] by blast
qed

text \<open>
  The theorem at concrete inputs: the state \<open>three_users\<close> holds the seeded trainer
  (credential \<open>admin\<close>, five code units, compared as it is) and Alice (credential of
  64 code units, compared with the digest of the input).
\<close>

theorem register_then_login_witness:
  "find (\<lambda>u. username u = ascii ''alice'') (users three_users) = Some (last (users three_users))
   \<and> length (password (last (users three_users))) = 64
   \<and> success (fst (handleLogin three_users (ascii ''alice'') (ascii ''pw123'')))
   \<and> \<not> success (fst (handleLogin three_users (ascii ''alice'') (ascii ''nope'')))
   \<and> find (\<lambda>u. username u = ascii ''admin'') (users three_users) = Some (hd (users three_users))
   \<and> length (password (hd (users three_users))) \<noteq> 64
   \<and> success (fst (handleLogin three_users (ascii ''admin'') (ascii ''admin'')))
   \<and> \<not> success (fst (handleLogin three_users (ascii ''admin'') (ascii ''pw123'')))
   \<and> ascii ''alice'' \<notin> set (map username (users fresh_state))
   \<and> snd (handleRegister fresh_state (ascii ''_u3'') (ascii ''alice'') (ascii ''pw123'')
            (ascii ''client'')) = three_users
   \<and> hashPassword (ascii ''nope'') \<noteq> hashPassword (ascii ''pw123'')
   \<and> handleLogin three_users (ascii ''alice'') (ascii ''nope'') =
        (\<lparr>success = False, message = Some msg_wrong_password, user = None\<rparr>, three_users)
   \<and> handleLogin three_users (ascii ''alice'') (ascii ''pw123'') =
        (\<lparr>success = True, message = None, user = None\<rparr>,
         three_users\<lparr>currentUser := Some (last (users three_users)),
                      activePage := ascii ''dashboard''\<rparr>)
   \<and> (\<exists>loaded store' st0.
        loadData always_accepts reject_all reject_all reject_all reject_all reject_all
          example_ids Map.empty = Inr (loaded, store')
        \<and> mount loaded = Some st0
        \<and> map username (users st0) = [ascii ''admin'', ascii ''demo''])"
proof -
  note inst = register_then_login [where cu = reject_all and cp = reject_all and cs = reject_all
      and cg = reject_all and cpr = reject_all and generateId = example_ids
      and newId = "ascii ''_u3''" and name = "ascii ''alice''" and pw = "ascii ''pw123''"
      and r = "ascii ''client''" and p = "ascii ''pw123''" and n = "ascii ''alice''"]
  have loaded: "\<exists>loaded store' st0.
        loadData always_accepts reject_all reject_all reject_all reject_all reject_all
          example_ids Map.empty = Inr (loaded, store')
        \<and> mount loaded = Some st0
        \<and> map username (users st0) = [ascii ''admin'', ascii ''demo'']"
    using inst [of fresh_state] by (elim conjE exE) (intro exI conjI; assumption)
  have rest:
    "find (\<lambda>u. username u = ascii ''alice'') (users three_users) = Some (last (users three_users))
     \<and> length (password (last (users three_users))) = 64
     \<and> success (fst (handleLogin three_users (ascii ''alice'') (ascii ''pw123'')))
     \<and> \<not> success (fst (handleLogin three_users (ascii ''alice'') (ascii ''nope'')))
     \<and> find (\<lambda>u. username u = ascii ''admin'') (users three_users)
         = Some (hd (users three_users))
     \<and> length (password (hd (users three_users))) \<noteq> 64
     \<and> success (fst (handleLogin three_users (ascii ''admin'') (ascii ''admin'')))
     \<and> \<not> success (fst (handleLogin three_users (ascii ''admin'') (ascii ''pw123'')))
     \<and> ascii ''alice'' \<notin> set (map username (users fresh_state))
     \<and> snd (handleRegister fresh_state (ascii ''_u3'') (ascii ''alice'') (ascii ''pw123'')
              (ascii ''client'')) = three_users
     \<and> hashPassword (ascii ''nope'') \<noteq> hashPassword (ascii ''pw123'')
     \<and> handleLogin three_users (ascii ''alice'') (ascii ''nope'') =
          (\<lparr>success = False, message = Some msg_wrong_password, user = None\<rparr>, three_users)
     \<and> handleLogin three_users (ascii ''alice'') (ascii ''pw123'') =
          (\<lparr>success = True, message = None, user = None\<rparr>,
           three_users\<lparr>currentUser := Some (last (users three_users)),
                        activePage := ascii ''dashboard''\<rparr>)"
    by (simp add: three_users_eval handleRegister_def handleLogin_def fresh_state_def
        default_users_def Let_def hashPassword_pw123 hashPassword_nope)
  from rest loaded show ?thesis by simp
qed

section \<open>Claim C5: login\<close>

text \<open>
  Claim C5, as amended. For every \<open>login\<close> call: when no user of the users collection has
  exactly the given username, the result is \<open>success: false\<close> with the message
  "user not found" and nothing changes; when a user matches (the first such user is
  taken) and the credential comparison fails, the result is \<open>success: false\<close> with the
  message "wrong password" and nothing changes; when the comparison succeeds, the
  result is the object \<open>{success: true}\<close>, which carries neither a message nor the
  user, and the matched user becomes the current user (the active page becomes the
  dashboard). In every case the users, programs, sessions, groups and products
  collections are unchanged. The comparison hashes the given password exactly when
  the stored credential has 64 code units.
\<close>

theorem handleLogin_outcomes:
  "(\<not> (\<exists>u \<in> set (users st). username u = n) \<longrightarrow>
      handleLogin st n p =
        (\<lparr>success = False, message = Some msg_user_not_found, user = None\<rparr>, st))
   \<and> (\<forall>u. find (\<lambda>u. username u = n) (users st) = Some u \<longrightarrow>
        handleLogin st n p =
          (if (if length (password u) = 64 then hashPassword p else p) = password u
           then (\<lparr>success = True, message = None, user = None\<rparr>,
                 st\<lparr>currentUser := Some u, activePage := ascii ''dashboard''\<rparr>)
           else (\<lparr>success = False, message = Some msg_wrong_password, user = None\<rparr>, st)))
   \<and> users (snd (handleLogin st n p)) = users st
   \<and> programs (snd (handleLogin st n p)) = programs st
   \<and> sessions (snd (handleLogin st n p)) = sessions st
   \<and> groups (snd (handleLogin st n p)) = groups st
   \<and> products (snd (handleLogin st n p)) = products st"
proof -
  have "find (\<lambda>u. username u = n) (users st) = None"
    if "\<not> (\<exists>u \<in> set (users st). username u = n)"
    using that by (auto simp: find_None_iff)
  then show ?thesis
    by (auto simp: handleLogin_def Let_def split: option.splits)
qed

theorem handleLogin_outcomes_witness:
  "ascii ''nobody'' \<notin> set (map username (users fresh_state))
   \<and> handleLogin fresh_state (ascii ''nobody'') (ascii ''admin'') =
        (\<lparr>success = False, message = Some msg_user_not_found, user = None\<rparr>, fresh_state)
   \<and> find (\<lambda>u. username u = ascii ''admin'') (users fresh_state) = Some (hd (users fresh_state))
   \<and> handleLogin fresh_state (ascii ''admin'') (ascii ''wrong'') =
        (\<lparr>success = False, message = Some msg_wrong_password, user = None\<rparr>, fresh_state)
   \<and> handleLogin fresh_state (ascii ''admin'') (ascii ''admin'') =
        (\<lparr>success = True, message = None, user = None\<rparr>,
         fresh_state\<lparr>currentUser := Some (hd (users fresh_state)),
                     activePage := ascii ''dashboard''\<rparr>)"
  using handleLogin_outcomes [of fresh_state "ascii ''nobody''" "ascii ''admin''"]
    handleLogin_outcomes [of fresh_state "ascii ''admin''" "ascii ''wrong''"]
    handleLogin_outcomes [of fresh_state "ascii ''admin''" "ascii ''admin''"]
  by (simp add: fresh_state_def default_users_def)

text \<open>
  Claim C5 as stated says that a successful login returns the matched user. It does
  not: after the seeded trainer logs in with the right password the returned object
  has \<open>success\<close> true and no \<open>user\<close>; the matched user is in the current-user cell.
\<close>

theorem login_returns_no_user:
  "success (fst (handleLogin fresh_state (ascii ''admin'') (ascii ''admin'')))
   \<and> user (fst (handleLogin fresh_state (ascii ''admin'') (ascii ''admin''))) = None
   \<and> currentUser (snd (handleLogin fresh_state (ascii ''admin'') (ascii ''admin'')))
       = Some (hd (users fresh_state))
   \<and> username (hd (users fresh_state)) = ascii ''admin''"
  by (simp add: run_defs)

section \<open>Claim C6: seeding\<close>










section \<open>Claim C7: unreadable storage\<close>

lemma returns_defaults_result:
  assumes "unreadable cu store USERS_KEY \<Longrightarrow> us = []"
    and "unreadable cp store PROGRAMS_KEY \<Longrightarrow> ps = []"
    and "unreadable cs store SESSIONS_KEY \<Longrightarrow> ss = []"
    and "unreadable cg store GROUPS_KEY \<Longrightarrow> gs = []"
    and "unreadable cpr store PRODUCTS_KEY \<Longrightarrow> prs = []"
  shows "returns_defaults cu cp cs cg cpr generateId store
           (Inr ((JArray (if us = [] then default_users (generateId 0) (generateId 1) else us),
                  JArray (if ps = []
                          then [default_program (generateId (if us = [] then 2 else 0))]
                          else ps),
                  JArray ss, JArray gs, JArray prs), store'))"
  using assms by (simp add: returns_defaults_def)

lemma returns_defaults_w_result:
  assumes "unreadable cu store USERS_KEY \<Longrightarrow> us = []"
    and "unreadable cp store PROGRAMS_KEY \<Longrightarrow> ps = []"
    and "unreadable cw store WORKOUTS_KEY \<Longrightarrow> ws = []"
    and "unreadable ce store EXERCISES_KEY \<Longrightarrow> es = []"
  shows "returns_defaults_w cu cp cw ce generateId store
           (Inr ((JArray (if us = [] then default_users_w (generateId 0) (generateId 1) else us),
                 JArray (if ps = []
                         then [default_program_w (generateId (if us = [] then 2 else 0))
                                 (generateId ((if us = [] then 2 else 0) + 1))
                                 (generateId ((if us = [] then 2 else 0) + 2))]
                         else ps),
                 JArray ws,
                 JArray (if es = []
                         then default_exercises generateId
                                ((if us = [] then 2 else 0) + (if ps = [] then 3 else 0))
                         else es)), store'))"
  using assms by (simp add: returns_defaults_w_def)

lemma loadData_unreadable:
  assumes "array_or_unreadable cu store USERS_KEY"
    and "array_or_unreadable cp store PROGRAMS_KEY"
    and "array_or_unreadable cs store SESSIONS_KEY"
    and "array_or_unreadable cg store GROUPS_KEY"
    and "array_or_unreadable cpr store PRODUCTS_KEY"
  shows "loadData accepts cu cp cs cg cpr generateId store = Inl QuotaExceededError
         \<or> returns_defaults cu cp cs cg cpr generateId store
              (loadData accepts cu cp cs cg cpr generateId store)"
    and "returns_defaults cu cp cs cg cpr generateId store
           (loadData always_accepts cu cp cs cg cpr generateId store)"
proof -
  obtain us where us: "read_users cu store = JArray us"
    using assms(1) read_users_array by blast
  obtain ps where ps: "read_or_empty cp store PROGRAMS_KEY = JArray ps"
    using assms(2) read_or_empty_array by blast
  obtain ss where ss: "read_or_empty cs store SESSIONS_KEY = JArray ss"
    using assms(3) read_or_empty_array by blast
  obtain gs where gs: "read_or_empty cg store GROUPS_KEY = JArray gs"
    using assms(4) read_or_empty_array by blast
  obtain prs where prs: "read_or_empty cpr store PRODUCTS_KEY = JArray prs"
    using assms(5) read_or_empty_array by blast
  have 1: "us = []" if "unreadable cu store USERS_KEY"
    using read_users_unreadable [OF that] us by simp
  have 2: "ps = []" if "unreadable cp store PROGRAMS_KEY"
    using read_or_empty_unreadable [OF that] ps by simp
  have 3: "ss = []" if "unreadable cs store SESSIONS_KEY"
    using read_or_empty_unreadable [OF that] ss by simp
  have 4: "gs = []" if "unreadable cg store GROUPS_KEY"
    using read_or_empty_unreadable [OF that] gs by simp
  have 5: "prs = []" if "unreadable cpr store PRODUCTS_KEY"
    using read_or_empty_unreadable [OF that] prs by simp
  note R = returns_defaults_result [of cu store us cp ps cs ss cg gs cpr prs generateId,
      OF 1 2 3 4 5]
  show "loadData accepts cu cp cs cg cpr generateId store = Inl QuotaExceededError
         \<or> returns_defaults cu cp cs cg cpr generateId store
              (loadData accepts cu cp cs cg cpr generateId store)"
    using loadData_arrays [OF us ps ss gs prs, of accepts generateId] R by auto
  show "returns_defaults cu cp cs cg cpr generateId store
           (loadData always_accepts cu cp cs cg cpr generateId store)"
    using loadData_arrays_accepted [OF us ps ss gs prs, of generateId] R by auto
qed

lemma loadData_w_unreadable:
  assumes "array_or_unreadable cu store USERS_KEY"
    and "array_or_unreadable cp store PROGRAMS_KEY"
    and "array_or_unreadable cw store WORKOUTS_KEY"
    and "array_or_unreadable ce store EXERCISES_KEY"
  shows "loadData_w accepts cu cp cw ce generateId store = Inl QuotaExceededError
         \<or> returns_defaults_w cu cp cw ce generateId store
              (loadData_w accepts cu cp cw ce generateId store)"
    and "returns_defaults_w cu cp cw ce generateId store
           (loadData_w always_accepts cu cp cw ce generateId store)"
proof -
  obtain us where us: "read_users cu store = JArray us"
    using assms(1) read_users_array by blast
  obtain ps where ps: "read_or_empty cp store PROGRAMS_KEY = JArray ps"
    using assms(2) read_or_empty_array by blast
  obtain ws where ws: "read_or_empty cw store WORKOUTS_KEY = JArray ws"
    using assms(3) read_or_empty_array by blast
  obtain es where es: "read_or_empty ce store EXERCISES_KEY = JArray es"
    using assms(4) read_or_empty_array by blast
  have 1: "us = []" if "unreadable cu store USERS_KEY"
    using read_users_unreadable [OF that] us by simp
  have 2: "ps = []" if "unreadable cp store PROGRAMS_KEY"
    using read_or_empty_unreadable [OF that] ps by simp
  have 3: "ws = []" if "unreadable cw store WORKOUTS_KEY"
    using read_or_empty_unreadable [OF that] ws by simp
  have 4: "es = []" if "unreadable ce store EXERCISES_KEY"
    using read_or_empty_unreadable [OF that] es by simp
  note R = returns_defaults_w_result [of cu store us cp ps cw ws ce es generateId,
      OF 1 2 3 4]
  show "loadData_w accepts cu cp cw ce generateId store = Inl QuotaExceededError
         \<or> returns_defaults_w cu cp cw ce generateId store
              (loadData_w accepts cu cp cw ce generateId store)"
    using loadData_w_arrays [OF us ps ws es, of accepts generateId] R by auto
  show "returns_defaults_w cu cp cw ce generateId store
           (loadData_w always_accepts cu cp cw ce generateId store)"
    using loadData_w_arrays_accepted [OF us ps ws es, of generateId] R by auto
qed

lemma corrupt_unreadable:
  "unreadable reject_all corrupt_store key" "array_or_unreadable reject_all corrupt_store key"
  by (simp_all add: unreadable_def array_or_unreadable_def corrupt_store_def getItem_def
      JSON_parse_def reject_all_def)

text \<open>
  Claim C7, as amended. For every key that is missing or whose text is not valid JSON,
  the read itself never raises: the parse error is caught and the collection read is
  empty. \<open>loadData\<close> then returns the default of that collection (the empty array for
  sessions, groups, products and workouts; the seeded accounts, the seeded program and
  the seeded exercise library for users, programs and exercises) provided that every
  other key is unreadable too or holds an array, and that the browser accepts the
  writes of the seeds. With every key unreadable or holding an array, but whatever the
  browser accepts, a run either returns these defaults or ends in the
  \<open>QuotaExceededError\<close> of a refused seeding write; it ends in no other fault. This is
  stated for both \<open>loadData\<close> functions. The ids of the seeded program and library
  entries are the next results of \<open>generateId\<close>, which depends on what was seeded
  before them.
\<close>

theorem unreadable_key_gives_default:
  "(unreadable c store USERS_KEY \<longrightarrow> read_users c store = JArray [])
   \<and> (unreadable c' store key \<longrightarrow> read_or_empty c' store key = JArray [])
   \<and> (array_or_unreadable cu store USERS_KEY \<and> array_or_unreadable cp store PROGRAMS_KEY
      \<and> array_or_unreadable cs store SESSIONS_KEY \<and> array_or_unreadable cg store GROUPS_KEY
      \<and> array_or_unreadable cpr store PRODUCTS_KEY \<longrightarrow>
        returns_defaults cu cp cs cg cpr generateId store
          (loadData always_accepts cu cp cs cg cpr generateId store)
        \<and> (loadData accepts cu cp cs cg cpr generateId store = Inl QuotaExceededError
           \<or> returns_defaults cu cp cs cg cpr generateId store
                (loadData accepts cu cp cs cg cpr generateId store)))
   \<and> (array_or_unreadable cuw store USERS_KEY \<and> array_or_unreadable cpw store PROGRAMS_KEY
      \<and> array_or_unreadable cw store WORKOUTS_KEY \<and> array_or_unreadable ce store EXERCISES_KEY
      \<longrightarrow>
        returns_defaults_w cuw cpw cw ce generateId store
          (loadData_w always_accepts cuw cpw cw ce generateId store)
        \<and> (loadData_w accepts cuw cpw cw ce generateId store = Inl QuotaExceededError
           \<or> returns_defaults_w cuw cpw cw ce generateId store
                (loadData_w accepts cuw cpw cw ce generateId store)))"
  by (intro conjI impI; (elim conjE)?;
      (rule read_users_unreadable read_or_empty_unreadable loadData_unreadable
          loadData_w_unreadable; assumption))

theorem unreadable_key_gives_default_witness:
  "unreadable (reject_all :: studio_user codec) corrupt_store USERS_KEY
   \<and> unreadable (reject_all :: plan_exercise program codec) corrupt_store PROGRAMS_KEY
   \<and> unreadable (reject_all :: session codec) corrupt_store SESSIONS_KEY
   \<and> unreadable (reject_all :: group codec) corrupt_store GROUPS_KEY
   \<and> unreadable (reject_all :: product codec) corrupt_store PRODUCTS_KEY
   \<and> unreadable (reject_all :: workout_user codec) corrupt_store USERS_KEY
   \<and> unreadable (reject_all :: workout_exercise workout_program codec) corrupt_store
        PROGRAMS_KEY
   \<and> unreadable (reject_all :: jsstring workout codec) corrupt_store WORKOUTS_KEY
   \<and> unreadable (reject_all :: exercise codec) corrupt_store EXERCISES_KEY
   \<and> array_or_unreadable (reject_all :: studio_user codec) corrupt_store USERS_KEY
   \<and> array_or_unreadable (reject_all :: plan_exercise program codec) corrupt_store PROGRAMS_KEY
   \<and> array_or_unreadable (reject_all :: session codec) corrupt_store SESSIONS_KEY
   \<and> array_or_unreadable (reject_all :: group codec) corrupt_store GROUPS_KEY
   \<and> array_or_unreadable (reject_all :: product codec) corrupt_store PRODUCTS_KEY
   \<and> array_or_unreadable (reject_all :: workout_user codec) corrupt_store USERS_KEY
   \<and> array_or_unreadable (reject_all :: workout_exercise workout_program codec) corrupt_store
        PROGRAMS_KEY
   \<and> array_or_unreadable (reject_all :: jsstring workout codec) corrupt_store WORKOUTS_KEY
   \<and> array_or_unreadable (reject_all :: exercise codec) corrupt_store EXERCISES_KEY
   \<and> read_users (reject_all :: studio_user codec) corrupt_store = JArray []
   \<and> read_or_empty (reject_all :: session codec) corrupt_store SESSIONS_KEY = JArray []
   \<and> (\<exists>p store'.
         loadData always_accepts reject_all reject_all reject_all reject_all reject_all
           example_ids corrupt_store
         = Inr ((JArray (default_users (example_ids 0) (example_ids 1)), p,
                 JArray [], JArray [], JArray []), store'))
   \<and> (\<exists>p e store'.
         loadData_w always_accepts reject_all reject_all (reject_all :: jsstring workout codec)
           reject_all example_ids corrupt_store
         = Inr ((JArray (default_users_w (example_ids 0) (example_ids 1)), p, JArray [], e),
                store'))
   \<and> loadData never_accepts reject_all reject_all reject_all reject_all reject_all
         example_ids corrupt_store = Inl QuotaExceededError"
proof -
  have refused:
    "loadData never_accepts reject_all reject_all reject_all reject_all reject_all
       example_ids corrupt_store = Inl QuotaExceededError"
    by (simp add: loadData_def read_users_unreadable corrupt_unreadable setItem_def
        never_accepts_def Let_def)
  show ?thesis
    using unreadable_key_gives_default [where c = "reject_all :: studio_user codec"
        and c' = "reject_all :: session codec" and key = SESSIONS_KEY
        and store = corrupt_store and cu = reject_all and cp = reject_all and cs = reject_all
        and cg = reject_all and cpr = reject_all and generateId = example_ids
        and cuw = reject_all and cpw = reject_all
        and cw = "reject_all :: jsstring workout codec" and ce = reject_all
        and accepts = never_accepts]
      refused
    by (auto simp: corrupt_unreadable returns_defaults_def returns_defaults_w_def
        split: sum.splits prod.splits)
qed

text \<open>
  Claim C7 as stated says that a load with a missing key never raises. It does: on
  empty storage, in a browser that refuses the write, the seeding of the users ends
  the run with a \<open>QuotaExceededError\<close>; and with the users key missing and every write
  accepted, a programs key that holds the text of an empty JSON string ends the run
  with a \<open>TypeError\<close> (\<open>programs.push\<close> is not a function).
\<close>

theorem missing_key_load_raises:
  "refused_first_load = Inl QuotaExceededError \<and> empty_string_load = Inl TypeError"
proof -
  have "PROGRAMS_KEY \<noteq> USERS_KEY"
    using keys_distinct by auto
  then show ?thesis
    by (simp add: refused_first_load_def empty_string_load_def loadData_def read_users_def
        read_or_empty_def getItem_def setItem_def never_accepts_def always_accepts_def
        JSON_parse_def decode_to_def reject_all_def Let_def)
qed

section \<open>Claim C8: purchasing twice\<close>

text \<open>
  Claim C8. A \<open>purchaseProduct\<close> call by an authenticated user for a product whose id is
  already in that user's \<open>purchasedProducts\<close> (the list of the user's record in the
  users collection, which is the one the code reads) leaves the users collection, and
  the whole state, unchanged; so a second purchase of the same product, right after
  the first, changes nothing.
\<close>

theorem purchaseProduct_idempotent:
  "(currentUser st = Some cu \<and> find (\<lambda>u. id_user u = id_user cu) (users st) = Some u
    \<and> productId \<in> set (purchasedProducts u) \<longrightarrow> purchaseProduct st productId = Inr st)
   \<and> (purchaseProduct st productId = Inr st1 \<longrightarrow> purchaseProduct st1 productId = Inr st1)"
proof (intro conjI impI)
  assume "currentUser st = Some cu \<and> find (\<lambda>u. id_user u = id_user cu) (users st) = Some u
    \<and> productId \<in> set (purchasedProducts u)"
  then show "purchaseProduct st productId = Inr st"
    by (simp add: purchaseProduct_def)
next
  assume first: "purchaseProduct st productId = Inr st1"
  show "purchaseProduct st1 productId = Inr st1"
  proof (cases "currentUser st")
    case None
    with first show ?thesis by (simp add: purchaseProduct_def)
  next
    case (Some cu')
    show ?thesis
    proof (cases "find (\<lambda>u. id_user u = id_user cu') (users st)")
      case None
      with Some first show ?thesis by (simp add: purchaseProduct_def)
    next
      case found: (Some u')
      show ?thesis
      proof (cases "productId \<in> set (purchasedProducts u')")
        case True
        with Some found first show ?thesis by (simp add: purchaseProduct_def)
      next
        case False
        let ?f = "\<lambda>u. if id_user u = id_user cu'
                       then u\<lparr>purchasedProducts := purchasedProducts u @ [productId]\<rparr> else u"
        from Some found False first have st1: "st1 = st\<lparr>users := map ?f (users st)\<rparr>"
          by (simp add: purchaseProduct_def)
        have "find (\<lambda>u. id_user u = id_user cu') (map ?f (users st)) = Some (?f u')"
          using found by (subst find_map_same_test) simp_all
        moreover have "id_user u' = id_user cu'"
          using found by (auto simp: find_Some_iff)
        ultimately show ?thesis
          using Some by (simp add: purchaseProduct_def st1)
      qed
    qed
  qed
qed

theorem purchaseProduct_idempotent_witness:
  "map_option id_user (currentUser demo_bought) = Some (ascii ''_u2'')
   \<and> map purchasedProducts (users demo_bought) = [[], [ascii ''_x1'']]
   \<and> purchaseProduct (logged_in fresh_state (ascii ''demo'') (ascii ''demo'')) (ascii ''_x1'')
       = Inr demo_bought
   \<and> purchaseProduct demo_bought (ascii ''_x1'') = Inr demo_bought"
  using purchaseProduct_idempotent [of demo_bought "users fresh_state ! 1"
      "users demo_bought ! 1" "ascii ''_x1''" demo_bought]
    purchaseProduct_idempotent [of "logged_in fresh_state (ascii ''demo'') (ascii ''demo'')"
      "users fresh_state ! 1" "users fresh_state ! 1" "ascii ''_x1''" demo_bought]
  by (simp add: demo_bought_def run_defs)

section \<open>Claim C9: completing a workout\<close>

text \<open>
  Claim C9. With an authenticated user, \<open>completeWorkout\<close> appends exactly one workout
  entry, stamped with that user's id and the current timestamp, and appends the new
  entry's id to the \<open>completedWorkouts\<close> of every record of the users collection that
  has the current user's id, leaving the rest of the state unchanged. With no
  authenticated user it does not return a result: it faults with a \<open>TypeError\<close> on
  reading \<open>currentUser.id\<close>.
\<close>

theorem completeWorkout_spec:
  "(currentUser_w st = None \<longrightarrow>
      completeWorkout st newId now pid results notes = Inl TypeError)
   \<and> (\<forall>cu. currentUser_w st = Some cu \<longrightarrow>
        (\<exists>st'. completeWorkout st newId now pid results notes = Inr st'
           \<and> workouts st' = workouts st @
                [\<lparr>id_workout = newId, userId = id_user cu, programId = pid,
                  date_workout = now, exercises_workout = results,
                  notes_workout = notes, duration_workout = Num 0\<rparr>]
           \<and> length (users_w st') = length (users_w st)
           \<and> (\<forall>i < length (users_w st).
                 users_w st' ! i =
                   (if id_user (users_w st ! i) = id_user cu
                    then (users_w st ! i)\<lparr>completedWorkouts :=
                           completedWorkouts (users_w st ! i) @ [newId]\<rparr>
                    else users_w st ! i))
           \<and> programs_w st' = programs_w st \<and> exercises st' = exercises st
           \<and> currentUser_w st' = currentUser_w st \<and> activePage_w st' = activePage_w st))"
  by (simp add: completeWorkout_def Let_def)

theorem completeWorkout_spec_witness:
  "currentUser_w fresh_wstate = None
   \<and> completeWorkout fresh_wstate (ascii ''_w1'') (ascii ''2025-01-01T10:00:00.000Z'')
        (ascii ''_p1'') (ascii ''results'') (ascii ''felt good'') = Inl TypeError
   \<and> map_option id_user (currentUser_w trainer_wstate) = Some (ascii ''_u1'')
   \<and> (\<exists>st'. completeWorkout trainer_wstate (ascii ''_w1'') (ascii ''2025-01-01T10:00:00.000Z'')
               (ascii ''_p1'') (ascii ''results'') (ascii ''felt good'') = Inr st'
          \<and> map id_workout (workouts st') = [ascii ''_w1'']
          \<and> map userId (workouts st') = [ascii ''_u1'']
          \<and> map date_workout (workouts st') = [ascii ''2025-01-01T10:00:00.000Z'']
          \<and> map completedWorkouts (users_w st') = [[ascii ''_w1''], []])"
  using completeWorkout_spec [of fresh_wstate "ascii ''_w1''" "ascii ''2025-01-01T10:00:00.000Z''"
      "ascii ''_p1''" "ascii ''results''" "ascii ''felt good''"]
    completeWorkout_spec [of trainer_wstate "ascii ''_w1''" "ascii ''2025-01-01T10:00:00.000Z''"
      "ascii ''_p1''" "ascii ''results''" "ascii ''felt good''"]
  by (simp add: completeWorkout_def trainer_wstate_def fresh_wstate_def default_users_w_def
      Let_def)

section \<open>Claim C10: handlers without a current user\<close>

text \<open>
  Claim C10. With no authenticated user (the current-user cell is null),
  \<open>bookSession\<close>, \<open>joinGroup\<close> and \<open>purchaseProduct\<close> return at once: none of them
  faults and none of them changes the state.
\<close>

theorem no_current_user_is_noop:
  "currentUser st = None \<Longrightarrow>
     bookSession st sessionId = st \<and> joinGroup st groupId = st
     \<and> purchaseProduct st productId = Inr st"
  by (simp add: bookSession_def joinGroup_def purchaseProduct_def)

theorem no_current_user_is_noop_witness:
  "currentUser fresh_state = None
   \<and> bookSession fresh_state (ascii ''_s1'') = fresh_state
   \<and> joinGroup fresh_state (ascii ''_g1'') = fresh_state
   \<and> purchaseProduct fresh_state (ascii ''_x1'') = Inr fresh_state"
  using no_current_user_is_noop [of fresh_state "ascii ''_s1''" "ascii ''_g1''" "ascii ''_x1''"]
  by (simp add: fresh_state_def)

end
